theory Spec2Isabelle
  imports Complex_Main
begin

section \<open>JavaScript strings and values used by the services\<close>

text \<open>
  Strings are \<^typ>\<open>string\<close>. A value that may be \<^verbatim>\<open>undefined\<close> at run time is an
  \<^typ>\<open>'a option\<close>; a template literal renders \<^verbatim>\<open>undefined\<close> as the text
  \<^verbatim>\<open>undefined\<close>.
\<close>

text \<open>\<^verbatim>\<open>s.split(c)\<close> for a one-character separator: never empty, \<^verbatim>\<open>"".split(":")\<close> is \<^verbatim>\<open>[""]\<close>.\<close>

fun split :: "char \<Rightarrow> string \<Rightarrow> string list" where
  "split c [] = [[]]"
| "split c (x # xs) =
     (if x = c then [] # split c xs
      else (case split c xs of [] \<Rightarrow> [[x]] | w # ws \<Rightarrow> (x # w) # ws))"

text \<open>\<^verbatim>\<open>`${v}`\<close> for a string that may be \<^verbatim>\<open>undefined\<close>.\<close>

definition template :: "string option \<Rightarrow> string" where
  "template v = (case v of None \<Rightarrow> ''undefined'' | Some s \<Rightarrow> s)"

definition digit :: "nat \<Rightarrow> char" where
  "digit n = ''0123456789'' ! (n mod 10)"

text \<open>\<^verbatim>\<open>Number.prototype.toString\<close> on a non-negative integer: decimal, no leading zero.\<close>

fun natToString :: "nat \<Rightarrow> string" where
  "natToString n = (if n < 10 then [digit n] else natToString (n div 10) @ [digit n])"

declare natToString.simps [simp del]

definition intToString :: "int \<Rightarrow> string" where
  "intToString i = (if i < 0 then CHR ''-'' # natToString (nat (- i)) else natToString (nat i))"

text \<open>
  \<^verbatim>\<open>s.includes(p)\<close> and \<^verbatim>\<open>s.replace(p, r)\<close> with a string pattern: the first occurrence
  only is replaced. The replacement texts of this program (a number's \<^verbatim>\<open>toString\<close> or
  \<^verbatim>\<open>toFixed\<close>) hold no \<^verbatim>\<open>$\<close>, so the \<^verbatim>\<open>$\<close>-patterns of \<^verbatim>\<open>replace\<close> play no part.
\<close>

fun startsWith :: "string \<Rightarrow> string \<Rightarrow> bool" where
  "startsWith s [] = True"
| "startsWith [] (p # ps) = False"
| "startsWith (x # xs) (p # ps) = (x = p \<and> startsWith xs ps)"

fun includesStr :: "string \<Rightarrow> string \<Rightarrow> bool" where
  "includesStr [] p = (p = [])"
| "includesStr (x # xs) p = (startsWith (x # xs) p \<or> includesStr xs p)"

fun replace :: "string \<Rightarrow> string \<Rightarrow> string \<Rightarrow> string" where
  "replace [] p r = (if p = [] then r else [])"
| "replace (x # xs) p r =
     (if startsWith (x # xs) p then r @ drop (length p) (x # xs) else x # replace xs p r)"

section \<open>content.service.ts: the cron expression of the progress alert\<close>

text \<open>
  Modelled from the spec: \<^verbatim>\<open>content.enum\<close> is not among the sources. The frequency is a
  string-valued enum with the two members \<^verbatim>\<open>weekly\<close> and \<^verbatim>\<open>biweekly\<close>; a stored
  frequency is any string. The day enum has the seven members that \<^verbatim>\<open>getDayNumber\<close> lists.
\<close>

definition progressAlertFrequeincyEnum_weekly :: string where
  "progressAlertFrequeincyEnum_weekly = ''weekly''"

definition progressAlertFrequeincyEnum_biweekly :: string where
  "progressAlertFrequeincyEnum_biweekly = ''biweekly''"

datatype progressAlertDayEnum =
  monday | tuesday | wednesday | thursday | friday | saturday | sunday

record progressAlertSchedule =
  frequency :: string
  day :: "progressAlertDayEnum option"
  time :: "string option"

fun getDayNumber :: "progressAlertDayEnum \<Rightarrow> nat" where
  "getDayNumber monday = 1"
| "getDayNumber tuesday = 2"
| "getDayNumber wednesday = 3"
| "getDayNumber thursday = 4"
| "getDayNumber friday = 5"
| "getDayNumber saturday = 6"
| "getDayNumber sunday = 0"

text \<open>
  \<^verbatim>\<open>const [hour, minute] = time ? time.split(':') : ['09', '00']\<close>: an absent or empty
  \<^verbatim>\<open>time\<close> is falsy; \<^verbatim>\<open>hour\<close> is the first field, \<^verbatim>\<open>minute\<close> the second one or
  \<^verbatim>\<open>undefined\<close>.
\<close>

definition timeFields :: "string option \<Rightarrow> string list" where
  "timeFields t = (case t of None \<Rightarrow> [''09'', ''00'']
                   | Some s \<Rightarrow> if s = [] then [''09'', ''00''] else split CHR '':'' s)"

definition hourField :: "string option \<Rightarrow> string option" where
  "hourField t = (case timeFields t of [] \<Rightarrow> None | h # _ \<Rightarrow> Some h)"

definition minuteField :: "string option \<Rightarrow> string option" where
  "minuteField t = (case timeFields t of h # m # _ \<Rightarrow> Some m | _ \<Rightarrow> None)"

text \<open>
  Lines 114 to 124 of \<^verbatim>\<open>addProgressAlertJob\<close>. \<^verbatim>\<open>getDayNumber(day!)\<close> on an absent day
  looks \<^verbatim>\<open>undefined\<close> up in the table and yields \<^verbatim>\<open>undefined\<close>.
\<close>

definition cronExpression :: "progressAlertSchedule \<Rightarrow> string" where
  "cronExpression s =
     (let hour = hourField (time s); minute = minuteField (time s) in
      if frequency s = progressAlertFrequeincyEnum_weekly then
        (let dayNumber = map_option (\<lambda>d. natToString (getDayNumber d)) (day s)
         in template minute @ '' '' @ template hour @ '' * * '' @ template dayNumber)
      else template minute @ '' '' @ template hour @ '' 1,15 * *'')"

section \<open>Errors, collaborators and the state of the system\<close>

text \<open>
  A raised exception is a value: \<open>AppError status message\<close> is the service's own error,
  \<open>TypeError\<close> a property read on \<^verbatim>\<open>undefined\<close>, and \<open>ExternalError\<close> whatever a
  collaborator outside these sources raises (the queue backend, the database session, the
  SMS sender, the notification sender). A computation takes the state and returns its
  result or error with the state it leaves. Of the console the state keeps the lines
  written with \<^verbatim>\<open>console.error\<close>, without the emoji that starts them and without the
  error printed after them; \<^verbatim>\<open>console.log\<close> is left out.
\<close>

datatype error = AppError nat string | TypeError string | ExternalError string

definition BAD_REQUEST :: nat where "BAD_REQUEST = 400"

definition NOT_FOUND :: nat where "NOT_FOUND = 404"

definition INTERNAL_SERVER_ERROR :: nat where "INTERNAL_SERVER_ERROR = 500"

definition andThen ::
  "(error + 'a) \<times> 's \<Rightarrow> ('a \<Rightarrow> 's \<Rightarrow> (error + 'b) \<times> 's) \<Rightarrow> (error + 'b) \<times> 's" where
  "andThen r k = (case r of (Inl e, s) \<Rightarrow> (Inl e, s) | (Inr a, s) \<Rightarrow> k a s)"

definition whenDo :: "bool \<Rightarrow> ('s \<Rightarrow> (error + unit) \<times> 's) \<Rightarrow> 's \<Rightarrow> (error + unit) \<times> 's" where
  "whenDo b m s = (if b then m s else (Inr (), s))"

text \<open>
  A JavaScript number: the finite values are taken as rationals (the rounding of a double
  is left out, and so is the sign of zero), the three special values are kept, since a
  division by zero produces them.
\<close>

datatype number = Finite rat | Infinity | NegInfinity | NaN

definition divideNumber :: "rat \<Rightarrow> rat \<Rightarrow> number" where
  "divideNumber x y =
     (if y = 0 then (if x = 0 then NaN else if 0 < x then Infinity else NegInfinity)
      else Finite (x / y))"

fun timesNumber :: "number \<Rightarrow> rat \<Rightarrow> number" where
  "timesNumber (Finite x) k = Finite (x * k)"
| "timesNumber Infinity k = (if 0 < k then Infinity else if k < 0 then NegInfinity else NaN)"
| "timesNumber NegInfinity k = (if 0 < k then NegInfinity else if k < 0 then Infinity else NaN)"
| "timesNumber NaN k = NaN"

fun lessThanNumber :: "number \<Rightarrow> rat \<Rightarrow> bool" where
  "lessThanNumber (Finite x) k = (x < k)"
| "lessThanNumber Infinity k = False"
| "lessThanNumber NegInfinity k = True"
| "lessThanNumber NaN k = False"

text \<open>
  \<^verbatim>\<open>x.toFixed(1)\<close>: the nearest tenth, the larger one on a tie, after the sign is taken
  off; \<^verbatim>\<open>NaN\<close> and the infinities print by name.
\<close>

fun toFixed1 :: "number \<Rightarrow> string" where
  "toFixed1 (Finite x) =
     (let n = nat \<lfloor>\<bar>x\<bar> * 10 + 1 / 2\<rfloor>
      in (if x < 0 then ''-'' else []) @ natToString (n div 10) @ ''.'' @ [digit n])"
| "toFixed1 Infinity = ''Infinity''"
| "toFixed1 NegInfinity = ''-Infinity''"
| "toFixed1 NaN = ''NaN''"

text \<open>
  Identifiers are texts. \<open>createdBy\<close> of a campaign is the id of its owner, which the
  handlers read from the populated document.
\<close>

type_synonym oid = string

record campaign =
  campaign_id :: oid
  title :: string
  status :: string
  currentAmount :: rat
  goalAmount :: rat
  endDate :: int
  createdBy :: oid

record user =
  contact :: "string option"
  totalRaised :: rat
  totalDonated :: rat
  totalInvited :: rat

record invitationHistory =
  invitationType :: string
  invitationCampaignId :: oid
  invitationFromUser :: oid
  invitationFromPhone :: string
  invitationForPhone :: string
  invitationForName :: string
  isDonated :: bool

record donation =
  donorId :: oid
  donorPhone :: string
  donationPaymentMethod :: "string option"
  transactionId :: string
  amountPaid :: rat
  donationCampaignId :: oid
  paymentStatus :: string

record notificationStrategy =
  campaignExpiredAlert :: bool
  lowProgressWarning :: bool
  mileStoneAlert :: bool
  mileStoneAlertMessage :: string
  progressAlert :: bool
  progressAlertMessage :: string
  progressAlertSchedule :: progressAlertSchedule
  campingId :: "oid option"
  organizationId :: "oid list option"

text \<open>
  Of the Content document only the notification strategy is read here. A document created
  from a partial payload may lack it: \<^verbatim>\<open>upsertContent\<close> tests for it before use.
\<close>

record content =
  notificationStrategy :: "notificationStrategy option"

record progressAlertData =
  alertMessage :: string
  alertFrequency :: string
  alertCampingId :: "oid option"
  alertOrganizationId :: "oid list option"

text \<open>
  A job of the queue: its name and the payload that the producer of that name builds. The
  milestone of a milestone alert is a whole percentage.
\<close>

datatype job =
  sendProgressAlert progressAlertData
| checkLowProgress
| checkExpiredCampaigns
| sendMilestoneAlert oid int
| otherJob string

fun jobName :: "job \<Rightarrow> string" where
  "jobName (sendProgressAlert d) = ''sendProgressAlert''"
| "jobName checkLowProgress = ''checkLowProgress''"
| "jobName checkExpiredCampaigns = ''checkExpiredCampaigns''"
| "jobName (sendMilestoneAlert c m) = ''sendMilestoneAlert''"
| "jobName (otherJob n) = n"

record repeatableJob =
  key :: string
  repeatJob :: job
  jobId :: string
  pattern :: string

record notification =
  userId :: oid
  notificationType :: string
  notificationTitle :: string
  message :: string
  dataCampaignId :: oid
  dataProgress :: "number option"
  dataMilestone :: "int option"

record world =
  campaigns :: "campaign list"
  users :: "oid \<rightharpoonup> user"
  invitations :: "invitationHistory list"
  transactions :: "donation list"
  contentDoc :: "content option"
  repeatables :: "repeatableJob list"
  waiting :: "job list"
  notifications :: "notification list"
  smsOutbox :: "(string \<times> string) list"
  consoleError :: "string list"

text \<open>
  What the collaborators do in one run: the clock, the random suffix of a transaction id,
  and which of their calls raise.
\<close>

datatype sessionStep =
  InsertInvitations | CreateDonation | IncTotalRaised | IncTotalDonatedInvited | CommitTransaction

record env =
  now :: int
  randomSuffix :: string
  sendSMSFails :: "string \<Rightarrow> bool"
  sendNotificationsFails :: "notification \<Rightarrow> bool"
  sessionFails :: "sessionStep \<Rightarrow> bool"
  getRepeatableJobsFails :: bool
  removeRepeatableByKeyFails :: "string \<Rightarrow> bool"
  addFails :: "string \<Rightarrow> bool"

definition consoleErrorLog :: "string \<Rightarrow> world \<Rightarrow> world" where
  "consoleErrorLog line w = w\<lparr>consoleError := consoleError w @ [line]\<rparr>"

section \<open>The schedule queue\<close>

text \<open>
  Modelled from the spec: the queue (\<^verbatim>\<open>utils/scheduleQueue\<close> and its backend) is not among
  the sources. A recurring registration is stored under a key that carries the job's
  identity with the store's own metadata around it (here the job name before it and the
  repeat pattern after it); registering under a key already present replaces that
  registration; removing an absent key changes nothing. Each call may raise, as \<open>env\<close>
  says.
\<close>

definition repeatKey :: "string \<Rightarrow> string \<Rightarrow> string \<Rightarrow> string" where
  "repeatKey name ident pat = name @ '':'' @ ident @ '':::'' @ pat"

definition addRepeatable ::
  "env \<Rightarrow> job \<Rightarrow> string \<Rightarrow> string \<Rightarrow> world \<Rightarrow> (error + unit) \<times> world" where
  "addRepeatable e j pat ident w =
     (if addFails e (jobName j) then (Inl (ExternalError ''scheduleQueue.add''), w)
      else
        (let k = repeatKey (jobName j) ident pat
         in (Inr (), w\<lparr>repeatables := filter (\<lambda>r. key r \<noteq> k) (repeatables w) @
               [\<lparr>key = k, repeatJob = j, jobId = ident, pattern = pat\<rparr>]\<rparr>)))"

definition addOnce :: "env \<Rightarrow> job \<Rightarrow> world \<Rightarrow> (error + unit) \<times> world" where
  "addOnce e j w =
     (if addFails e (jobName j) then (Inl (ExternalError ''scheduleQueue.add''), w)
      else (Inr (), w\<lparr>waiting := waiting w @ [j]\<rparr>))"

definition getRepeatableJobs :: "env \<Rightarrow> world \<Rightarrow> (error + repeatableJob list) \<times> world" where
  "getRepeatableJobs e w =
     (if getRepeatableJobsFails e
      then (Inl (ExternalError ''scheduleQueue.getRepeatableJobs''), w)
      else (Inr (repeatables w), w))"

definition removeRepeatableByKey :: "env \<Rightarrow> string \<Rightarrow> world \<Rightarrow> (error + unit) \<times> world" where
  "removeRepeatableByKey e k w =
     (if removeRepeatableByKeyFails e k
      then (Inl (ExternalError ''scheduleQueue.removeRepeatableByKey''), w)
      else (Inr (), w\<lparr>repeatables := filter (\<lambda>r. key r \<noteq> k) (repeatables w)\<rparr>))"

section \<open>content.service.ts: registering and removing the recurring jobs\<close>

definition addProgressAlertJob ::
  "env \<Rightarrow> notificationStrategy \<Rightarrow> world \<Rightarrow> (error + unit) \<times> world" where
  "addProgressAlertJob e st w =
     addRepeatable e
       (sendProgressAlert
          \<lparr>alertMessage = progressAlertMessage st,
           alertFrequency = frequency (progressAlertSchedule st),
           alertCampingId = campingId st,
           alertOrganizationId = organizationId st\<rparr>)
       (cronExpression (progressAlertSchedule st)) ''progress-alert-job'' w"

definition addLowProgressWarningJob :: "env \<Rightarrow> world \<Rightarrow> (error + unit) \<times> world" where
  "addLowProgressWarningJob e w =
     addRepeatable e checkLowProgress ''0 10 * * *'' ''low-progress-warning-job'' w"

definition addCampaignExpiredAlertJob :: "env \<Rightarrow> world \<Rightarrow> (error + unit) \<times> world" where
  "addCampaignExpiredAlertJob e w =
     addRepeatable e checkExpiredCampaigns ''0 8 * * *'' ''campaign-expired-alert-job'' w"

text \<open>The \<^verbatim>\<open>catch\<close> of \<^verbatim>\<open>setupNotificationJobs\<close> logs and throws the error again.\<close>

definition setupNotificationJobs ::
  "env \<Rightarrow> notificationStrategy \<Rightarrow> world \<Rightarrow> (error + unit) \<times> world" where
  "setupNotificationJobs e st w =
     (case andThen
             (andThen (whenDo (progressAlert st) (addProgressAlertJob e st) w)
                (\<lambda>u. whenDo (lowProgressWarning st) (addLowProgressWarningJob e)))
             (\<lambda>u. whenDo (campaignExpiredAlert st) (addCampaignExpiredAlertJob e)) of
        (Inl err, w') \<Rightarrow> (Inl err, consoleErrorLog ''Error setting up notification jobs:'' w')
      | (Inr u, w') \<Rightarrow> (Inr (), w'))"

definition jobIds :: "string list" where
  "jobIds = [''progress-alert-job'', ''low-progress-warning-job'', ''campaign-expired-alert-job'']"

definition shouldRemove :: "string \<Rightarrow> bool" where
  "shouldRemove k = list_ex (\<lambda>i. includesStr k i) jobIds"

text \<open>The loop over the listed jobs: the first removal that raises ends it.\<close>

fun removeJobs :: "env \<Rightarrow> repeatableJob list \<Rightarrow> world \<Rightarrow> (error + unit) \<times> world" where
  "removeJobs e [] w = (Inr (), w)"
| "removeJobs e (j # js) w =
     (if shouldRemove (key j) then
        (case removeRepeatableByKey e (key j) w of
           (Inl err, w') \<Rightarrow> (Inl err, w')
         | (Inr u, w') \<Rightarrow> removeJobs e js w')
      else removeJobs e js w)"

text \<open>The \<^verbatim>\<open>catch\<close> of \<^verbatim>\<open>removeExistingNotificationJobs\<close> logs the error and returns.\<close>

definition removeExistingNotificationJobs :: "env \<Rightarrow> world \<Rightarrow> (error + unit) \<times> world" where
  "removeExistingNotificationJobs e w =
     (case andThen (getRepeatableJobs e w) (removeJobs e) of
        (Inl err, w') \<Rightarrow> (Inr (), consoleErrorLog ''Error removing jobs:'' w')
      | (Inr u, w') \<Rightarrow> (Inr (), w'))"

text \<open>
  \<^verbatim>\<open>upsertContent\<close>, on the notification strategy of the payload (its other fields do not
  reach the queue). The document store holds one Content document or none;
  \<^verbatim>\<open>findByIdAndUpdate\<close> returns the document with the payload's fields written over it.
  The outer \<^verbatim>\<open>catch\<close> logs and throws the error again.
\<close>

record contentPayload =
  payloadNotificationStrategy :: "notificationStrategy option"

definition upsertContent ::
  "env \<Rightarrow> contentPayload \<Rightarrow> world \<Rightarrow> (error + content \<times> bool) \<times> world" where
  "upsertContent e payload w =
     (case
        (case contentDoc w of
           None \<Rightarrow>
             (let newContent = \<lparr>notificationStrategy = payloadNotificationStrategy payload\<rparr>;
                  w1 = w\<lparr>contentDoc := Some newContent\<rparr>
              in andThen
                   (case notificationStrategy newContent of
                      Some st \<Rightarrow> setupNotificationJobs e st w1
                    | None \<Rightarrow> (Inr (), w1))
                   (\<lambda>u w2. (Inr (newContent, True), w2)))
         | Some existingContent \<Rightarrow>
             (let updatedContent =
                    (case payloadNotificationStrategy payload of
                       Some st \<Rightarrow> existingContent\<lparr>notificationStrategy := Some st\<rparr>
                     | None \<Rightarrow> existingContent);
                  w1 = w\<lparr>contentDoc := Some updatedContent\<rparr>
              in andThen
                   (case payloadNotificationStrategy payload of
                      Some st \<Rightarrow>
                        andThen (removeExistingNotificationJobs e w1)
                          (\<lambda>u. setupNotificationJobs e st)
                    | None \<Rightarrow> (Inr (), w1))
                   (\<lambda>u w2. (Inr (updatedContent, False), w2)))) of
        (Inl err, w') \<Rightarrow> (Inl err, consoleErrorLog ''Error in upsertContent:'' w')
      | (Inr r, w') \<Rightarrow> (Inr r, w'))"

section \<open>Fixtures and derived notions for the statements\<close>

text \<open>A run in which no collaborator raises, and a state with nothing in it.\<close>

definition quietEnv :: env where
  "quietEnv =
     \<lparr>now = 0, randomSuffix = ''k3x9q1z7p'', sendSMSFails = (\<lambda>p. False),
      sendNotificationsFails = (\<lambda>n. False), sessionFails = (\<lambda>s. False),
      getRepeatableJobsFails = False, removeRepeatableByKeyFails = (\<lambda>k. False),
      addFails = (\<lambda>n. False)\<rparr>"

definition emptyWorld :: world where
  "emptyWorld =
     \<lparr>campaigns = [], users = Map.empty, invitations = [], transactions = [],
      contentDoc = None, repeatables = [], waiting = [], notifications = [],
      smsOutbox = [], consoleError = []\<rparr>"

definition exampleStrategy :: "string \<Rightarrow> progressAlertDayEnum option \<Rightarrow> string option \<Rightarrow> notificationStrategy" where
  "exampleStrategy f d t =
     \<lparr>campaignExpiredAlert = True, lowProgressWarning = True, mileStoneAlert = True,
      mileStoneAlertMessage = ''Campaign Milestone Alert'', progressAlert = True,
      progressAlertMessage = ''Campaign Progress Alert'',
      progressAlertSchedule = \<lparr>frequency = f, day = d, time = t\<rparr>,
      campingId = None, organizationId = None\<rparr>"

text \<open>The days counted from sunday, as the canonical numbering has them.\<close>

definition weekFromSunday :: "progressAlertDayEnum list" where
  "weekFromSunday = [sunday, monday, tuesday, wednesday, thursday, friday, saturday]"

text \<open>The registrations that \<^verbatim>\<open>setupNotificationJobs\<close> asks for, one for each enabled toggle.\<close>

definition progressAlertRegistration :: "notificationStrategy \<Rightarrow> repeatableJob" where
  "progressAlertRegistration st =
     \<lparr>key = repeatKey ''sendProgressAlert'' ''progress-alert-job''
              (cronExpression (progressAlertSchedule st)),
      repeatJob = sendProgressAlert
          \<lparr>alertMessage = progressAlertMessage st,
           alertFrequency = frequency (progressAlertSchedule st),
           alertCampingId = campingId st,
           alertOrganizationId = organizationId st\<rparr>,
      jobId = ''progress-alert-job'',
      pattern = cronExpression (progressAlertSchedule st)\<rparr>"

definition lowProgressRegistration :: repeatableJob where
  "lowProgressRegistration =
     \<lparr>key = repeatKey ''checkLowProgress'' ''low-progress-warning-job'' ''0 10 * * *'',
      repeatJob = checkLowProgress, jobId = ''low-progress-warning-job'',
      pattern = ''0 10 * * *''\<rparr>"

definition expiredRegistration :: repeatableJob where
  "expiredRegistration =
     \<lparr>key = repeatKey ''checkExpiredCampaigns'' ''campaign-expired-alert-job'' ''0 8 * * *'',
      repeatJob = checkExpiredCampaigns, jobId = ''campaign-expired-alert-job'',
      pattern = ''0 8 * * *''\<rparr>"

definition enabledRegistrations :: "notificationStrategy \<Rightarrow> repeatableJob list" where
  "enabledRegistrations st =
     (if progressAlert st then [progressAlertRegistration st] else []) @
     (if lowProgressWarning st then [lowProgressRegistration] else []) @
     (if campaignExpiredAlert st then [expiredRegistration] else [])"

definition registrationFails :: "env \<Rightarrow> notificationStrategy \<Rightarrow> bool" where
  "registrationFails e st =
     ((progressAlert st \<and> addFails e ''sendProgressAlert'') \<or>
      (lowProgressWarning st \<and> addFails e ''checkLowProgress'') \<or>
      (campaignExpiredAlert st \<and> addFails e ''checkExpiredCampaigns''))"

definition registrationsOf :: "string \<Rightarrow> world \<Rightarrow> repeatableJob list" where
  "registrationsOf ident w = filter (\<lambda>r. jobId r = ident) (repeatables w)"

text \<open>A state for the examples: a Content document and a stale progress alert registration.\<close>

definition staleWorld :: world where
  "staleWorld =
     emptyWorld
       \<lparr>contentDoc := Some \<lparr>notificationStrategy = None\<rparr>,
        repeatables :=
          [\<lparr>key = ''sendProgressAlert:progress-alert-job:::00 09 1,15 * *'',
            repeatJob = sendProgressAlert
              \<lparr>alertMessage = ''Old'', alertFrequency = ''biweekly'',
               alertCampingId = None, alertOrganizationId = None\<rparr>,
            jobId = ''progress-alert-job'', pattern = ''00 09 1,15 * *''\<rparr>]\<rparr>"

section \<open>campaign.service.ts: inviting people to a campaign\<close>

text \<open>
  The payload: \<open>inviteePhone\<close> and \<open>inviteeName\<close> are the fields \<^verbatim>\<open>invitationForPhone\<close> and
  \<^verbatim>\<open>invitationForName\<close> of an invitee. Amounts are finite numbers, taken as rationals.
\<close>

record invitee =
  inviteePhone :: string
  inviteeName :: "string option"

record invitePayload =
  myInvitees :: "invitee list"
  donationAmount :: "rat option"
  paymentMethod :: "string option"
  invitationIrecievedFrom :: oid

record inviteResult =
  resultMessage :: string
  resultDonationAmount :: "rat option"

text \<open>
  Modelled from the spec: the enums of \<^verbatim>\<open>InvitationType.invitation\<close> and
  \<^verbatim>\<open>paymentStatusType.COMPLETED\<close> are not among the sources. The two members are the
  strings \<^verbatim>\<open>invitation\<close> and \<^verbatim>\<open>completed\<close>.
\<close>

definition InvitationType_invitation :: string where
  "InvitationType_invitation = ''invitation''"

definition paymentStatusType_COMPLETED :: string where
  "paymentStatusType_COMPLETED = ''completed''"

text \<open>\<^verbatim>\<open>payload.donationAmount && payload.donationAmount > 0\<close>, as a truth value.\<close>

definition donates :: "invitePayload \<Rightarrow> bool" where
  "donates payload = (case donationAmount payload of None \<Rightarrow> False | Some a \<Rightarrow> 0 < a)"

text \<open>
  Modelled from the spec: \<^verbatim>\<open>shared/sendSMS\<close> is not among the sources. The sender takes a
  phone number and a text; it delivers, or it fails, and a failure is a rejected promise.
\<close>

definition sendSMS :: "env \<Rightarrow> string \<Rightarrow> string \<Rightarrow> world \<Rightarrow> (error + unit) \<times> world" where
  "sendSMS e phone text w =
     (if sendSMSFails e phone then (Inl (ExternalError ''sendSMS''), w)
      else (Inr (), w\<lparr>smsOutbox := smsOutbox w @ [(phone, text)]\<rparr>))"

definition invitationText :: "campaign \<Rightarrow> string" where
  "invitationText c =
     ''You'' @ [CHR 0x27] @ ''ve been invited to join campaign '' @ [CHR 0x22] @ title c @
     [CHR 0x22] @ ''. Join now!''"

definition invitationDto :: "campaign \<Rightarrow> oid \<Rightarrow> string \<Rightarrow> bool \<Rightarrow> invitee \<Rightarrow> invitationHistory" where
  "invitationDto c inviterId inviterPhone donated i =
     \<lparr>invitationType = InvitationType_invitation,
      invitationCampaignId = campaign_id c,
      invitationFromUser = inviterId,
      invitationFromPhone = inviterPhone,
      invitationForPhone = inviteePhone i,
      invitationForName = (case inviteeName i of None \<Rightarrow> [] | Some n \<Rightarrow> n),
      isDonated = donated\<rparr>"

text \<open>
  The loop over the invitees, before the session is opened: each invitee is pushed onto
  the batch, and an invitee with a phone number is sent an SMS, awaited and not caught.
\<close>

fun inviteLoop ::
  "env \<Rightarrow> campaign \<Rightarrow> oid \<Rightarrow> string \<Rightarrow> bool \<Rightarrow> invitee list \<Rightarrow> invitationHistory list \<Rightarrow> world
     \<Rightarrow> (error + invitationHistory list) \<times> world" where
  "inviteLoop e c inviterId inviterPhone donated [] batch w = (Inr batch, w)"
| "inviteLoop e c inviterId inviterPhone donated (i # rest) batch w =
     (let batch' = batch @ [invitationDto c inviterId inviterPhone donated i] in
      if inviteePhone i \<noteq> [] then
        (case sendSMS e (inviteePhone i) (invitationText c) w of
           (Inl err, w') \<Rightarrow> (Inl err, w')
         | (Inr u, w') \<Rightarrow> inviteLoop e c inviterId inviterPhone donated rest batch' w')
      else inviteLoop e c inviterId inviterPhone donated rest batch' w)"

text \<open>
  One write of the session: it raises, or it changes the state that the session has
  staged. \<^verbatim>\<open>updateOne\<close> with \<^verbatim>\<open>$inc\<close> changes the user it finds and nothing otherwise.
\<close>

definition sessionWrite ::
  "env \<Rightarrow> sessionStep \<Rightarrow> (world \<Rightarrow> world) \<Rightarrow> world \<Rightarrow> (error + unit) \<times> world" where
  "sessionWrite e s f w =
     (if sessionFails e s then (Inl (ExternalError ''session''), w) else (Inr (), f w))"

definition updateUser :: "oid \<Rightarrow> (user \<Rightarrow> user) \<Rightarrow> world \<Rightarrow> world" where
  "updateUser i f w =
     (case users w i of None \<Rightarrow> w | Some u \<Rightarrow> w\<lparr>users := (users w)(i \<mapsto> f u)\<rparr>)"

definition donationDto :: "env \<Rightarrow> invitePayload \<Rightarrow> oid \<Rightarrow> string \<Rightarrow> campaign \<Rightarrow> rat \<Rightarrow> donation" where
  "donationDto e payload inviterId inviterPhone c amount =
     \<lparr>donorId = inviterId,
      donorPhone = inviterPhone,
      donationPaymentMethod = paymentMethod payload,
      transactionId = ''INV-'' @ intToString (now e) @ ''-'' @ randomSuffix e,
      amountPaid = amount,
      donationCampaignId = campaign_id c,
      paymentStatus = paymentStatusType_COMPLETED\<rparr>"

text \<open>
  The body of the \<^verbatim>\<open>try\<close> block, on the state staged by the session. \<^verbatim>\<open>Transaction.create\<close>
  with an array returns an array, so the test \<^verbatim>\<open>!createdDonation\<close> never holds.
\<close>

definition donationWrites ::
  "env \<Rightarrow> invitePayload \<Rightarrow> oid \<Rightarrow> string \<Rightarrow> campaign \<Rightarrow> rat \<Rightarrow> world \<Rightarrow> (error + unit) \<times> world" where
  "donationWrites e payload inviterId inviterPhone c amount w =
     andThen
       (andThen
          (sessionWrite e CreateDonation
             (\<lambda>s. s\<lparr>transactions := transactions s @
                     [donationDto e payload inviterId inviterPhone c amount]\<rparr>) w)
          (\<lambda>u. sessionWrite e IncTotalRaised
             (updateUser (invitationIrecievedFrom payload)
                (\<lambda>r. r\<lparr>totalRaised := totalRaised r + amount\<rparr>))))
       (\<lambda>u. sessionWrite e IncTotalDonatedInvited
          (updateUser inviterId
             (\<lambda>r. r\<lparr>totalDonated := totalDonated r + amount,
                    totalInvited := totalInvited r + of_nat (length (myInvitees payload))\<rparr>)))"

definition invitationTransaction ::
  "env \<Rightarrow> invitePayload \<Rightarrow> oid \<Rightarrow> string \<Rightarrow> campaign \<Rightarrow> invitationHistory list \<Rightarrow> world
     \<Rightarrow> (error + unit) \<times> world" where
  "invitationTransaction e payload inviterId inviterPhone c batch w =
     andThen
       (andThen
          (sessionWrite e InsertInvitations (\<lambda>s. s\<lparr>invitations := invitations s @ batch\<rparr>) w)
          (\<lambda>u s. case donationAmount payload of
                    None \<Rightarrow> (Inr (), s)
                  | Some amount \<Rightarrow>
                      if 0 < amount then donationWrites e payload inviterId inviterPhone c amount s
                      else (Inr (), s)))
       (\<lambda>u. sessionWrite e CommitTransaction (\<lambda>s. s))"

text \<open>
  \<^verbatim>\<open>invitePeopleToCampaign(payload, user, campaignId)\<close>, \<open>inviterId\<close> being \<^verbatim>\<open>user.id\<close>. When
  the body of the \<^verbatim>\<open>try\<close> block raises, the session is aborted: the state is the one
  before the session, and the error thrown is the service's own.
\<close>

definition invitePeopleToCampaign ::
  "env \<Rightarrow> invitePayload \<Rightarrow> oid \<Rightarrow> oid \<Rightarrow> world \<Rightarrow> (error + inviteResult) \<times> world" where
  "invitePeopleToCampaign e payload inviterId campaignId w =
     (if invitationIrecievedFrom payload = inviterId
      then (Inl (AppError BAD_REQUEST ''You can not invite yourself.''), w)
      else
        (case find (\<lambda>c. campaign_id c = campaignId) (campaigns w) of
           None \<Rightarrow> (Inl (AppError NOT_FOUND ''Campaign not found.''), w)
         | Some c \<Rightarrow>
        (case users w inviterId of
           None \<Rightarrow> (Inl (AppError NOT_FOUND ''User not found.''), w)
         | Some isExitUser \<Rightarrow>
        (case contact isExitUser of
           None \<Rightarrow> (Inl (AppError NOT_FOUND ''User not found.''), w)
         | Some inviterPhone \<Rightarrow>
        if inviterPhone = [] then (Inl (AppError NOT_FOUND ''User not found.''), w)
        else
        (case users w (invitationIrecievedFrom payload) of
           None \<Rightarrow> (Inl (AppError NOT_FOUND ''Invitation User not found.''), w)
         | Some isInvitationUser \<Rightarrow>
        (case inviteLoop e c inviterId inviterPhone (donates payload) (myInvitees payload) [] w of
           (Inl err, w1) \<Rightarrow> (Inl err, w1)
         | (Inr batchInvitationDto, w1) \<Rightarrow>
        (case invitationTransaction e payload inviterId inviterPhone c batchInvitationDto w1 of
           (Inl err, w2) \<Rightarrow>
             (Inl (AppError INTERNAL_SERVER_ERROR ''Failed to process invitation and donation''), w1)
         | (Inr u, w2) \<Rightarrow>
             (Inr \<lparr>resultMessage = ''People invited successfully'',
                   resultDonationAmount =
                     (if donates payload then donationAmount payload else None)\<rparr>, w2))))))))"

text \<open>A campaign, an inviter with a phone on file, a referring user, and three invitees.\<close>

definition inviteWorld :: world where
  "inviteWorld =
     emptyWorld
       \<lparr>campaigns :=
          [\<lparr>campaign_id = ''c1'', title = ''Shelter'', status = ''active'', currentAmount = 250,
            goalAmount = 1000, endDate = 100, createdBy = ''org1''\<rparr>],
        users :=
          [''u1'' \<mapsto> \<lparr>contact = Some ''+15550001'', totalRaised = 0, totalDonated = 10,
                      totalInvited = 2\<rparr>,
           ''u2'' \<mapsto> \<lparr>contact = None, totalRaised = 5, totalDonated = 0, totalInvited = 0\<rparr>]\<rparr>"

definition invitePayload50 :: invitePayload where
  "invitePayload50 =
     \<lparr>myInvitees =
        [\<lparr>inviteePhone = ''+15550002'', inviteeName = Some ''Ann''\<rparr>,
         \<lparr>inviteePhone = ''+15550003'', inviteeName = None\<rparr>,
         \<lparr>inviteePhone = ''+15550004'', inviteeName = Some ''Cy''\<rparr>],
      donationAmount = Some 50, paymentMethod = Some ''card'',
      invitationIrecievedFrom = ''u2''\<rparr>"

section \<open>notificationWorker.ts: the handlers and the worker\<close>

text \<open>
  Modelled from the spec: \<^verbatim>\<open>helpers/notificationsHelper\<close> is not among the sources. The
  sender takes the recipient, the type, the title, the message and the data; it delivers,
  or it throws. The emoji that starts some titles is left out of the text.
\<close>

definition sendNotifications :: "env \<Rightarrow> notification \<Rightarrow> world \<Rightarrow> (error + unit) \<times> world" where
  "sendNotifications e n w =
     (if sendNotificationsFails e n then (Inl (ExternalError ''sendNotifications''), w)
      else (Inr (), w\<lparr>notifications := notifications w @ [n]\<rparr>))"

text \<open>\<^verbatim>\<open>(campaign.currentAmount / campaign.goalAmount) * 100\<close>, with no test of the divisor.\<close>

definition progress :: "campaign \<Rightarrow> number" where
  "progress c = timesNumber (divideNumber (currentAmount c) (goalAmount c)) 100"

text \<open>
  The query of \<^verbatim>\<open>handleProgressAlert\<close>: active campaigns that end after now, of the one
  campaign and of the organizations of the payload when it names them.
\<close>

definition progressAlertQuery :: "env \<Rightarrow> progressAlertData \<Rightarrow> campaign \<Rightarrow> bool" where
  "progressAlertQuery e d c =
     (status c = ''active'' \<and> now e < endDate c \<and>
      (case alertCampingId d of None \<Rightarrow> True | Some i \<Rightarrow> i = [] \<or> campaign_id c = i) \<and>
      (case alertOrganizationId d of None \<Rightarrow> True | Some os \<Rightarrow> os = [] \<or> createdBy c \<in> set os))"

definition progressAlertNotification :: "string \<Rightarrow> campaign \<Rightarrow> notification" where
  "progressAlertNotification text c =
     \<lparr>userId = createdBy c, notificationType = ''PROGRESS_ALERT'',
      notificationTitle = ''Campaign Progress Update'',
      message = replace text ''{progress}'' (toFixed1 (progress c)),
      dataCampaignId = campaign_id c, dataProgress = None, dataMilestone = None\<rparr>"

fun progressAlertLoop :: "env \<Rightarrow> string \<Rightarrow> campaign list \<Rightarrow> world \<Rightarrow> (error + unit) \<times> world" where
  "progressAlertLoop e text [] w = (Inr (), w)"
| "progressAlertLoop e text (c # cs) w =
     (case sendNotifications e (progressAlertNotification text c) w of
        (Inl err, w') \<Rightarrow> (Inl err, w')
      | (Inr u, w') \<Rightarrow> progressAlertLoop e text cs w')"

definition handleProgressAlert :: "env \<Rightarrow> progressAlertData \<Rightarrow> world \<Rightarrow> (error + unit) \<times> world" where
  "handleProgressAlert e d w =
     progressAlertLoop e (alertMessage d) (filter (progressAlertQuery e d) (campaigns w)) w"

text \<open>
  The query of \<^verbatim>\<open>handleLowProgressWarning\<close>: active campaigns that end within seven days
  from now, the clock counting milliseconds.
\<close>

definition lowProgressQuery :: "env \<Rightarrow> campaign \<Rightarrow> bool" where
  "lowProgressQuery e c =
     (status c = ''active'' \<and> now e \<le> endDate c \<and> endDate c \<le> now e + 7 * 86400000)"

definition lowProgressNotification :: "campaign \<Rightarrow> notification" where
  "lowProgressNotification c =
     \<lparr>userId = createdBy c, notificationType = ''LOW_PROGRESS_WARNING'',
      notificationTitle = ''Low Campaign Progress'',
      message = [CHR 0x22] @ title c @ [CHR 0x22] @ '' is below 25% with 1 week left'',
      dataCampaignId = campaign_id c, dataProgress = Some (progress c), dataMilestone = None\<rparr>"

fun lowProgressLoop :: "env \<Rightarrow> campaign list \<Rightarrow> world \<Rightarrow> (error + unit) \<times> world" where
  "lowProgressLoop e [] w = (Inr (), w)"
| "lowProgressLoop e (c # cs) w =
     (if lessThanNumber (progress c) 25 then
        (case sendNotifications e (lowProgressNotification c) w of
           (Inl err, w') \<Rightarrow> (Inl err, w')
         | (Inr u, w') \<Rightarrow> lowProgressLoop e cs w')
      else lowProgressLoop e cs w)"

definition handleLowProgressWarning :: "env \<Rightarrow> world \<Rightarrow> (error + unit) \<times> world" where
  "handleLowProgressWarning e w = lowProgressLoop e (filter (lowProgressQuery e) (campaigns w)) w"

definition expiredNotification :: "campaign \<Rightarrow> notification" where
  "expiredNotification c =
     \<lparr>userId = createdBy c, notificationType = ''CAMPAIGN_EXPIRED'',
      notificationTitle = ''Campaign Expired'',
      message = [CHR 0x22] @ title c @ [CHR 0x22] @ '' has ended'',
      dataCampaignId = campaign_id c, dataProgress = None, dataMilestone = None\<rparr>"

definition expireCampaign :: "oid \<Rightarrow> world \<Rightarrow> world" where
  "expireCampaign i w =
     w\<lparr>campaigns :=
         map (\<lambda>c. if campaign_id c = i then c\<lparr>status := ''expired''\<rparr> else c) (campaigns w)\<rparr>"

fun expiredLoop :: "env \<Rightarrow> campaign list \<Rightarrow> world \<Rightarrow> (error + unit) \<times> world" where
  "expiredLoop e [] w = (Inr (), w)"
| "expiredLoop e (c # cs) w =
     (case sendNotifications e (expiredNotification c) (expireCampaign (campaign_id c) w) of
        (Inl err, w') \<Rightarrow> (Inl err, w')
      | (Inr u, w') \<Rightarrow> expiredLoop e cs w')"

definition handleExpiredCampaigns :: "env \<Rightarrow> world \<Rightarrow> (error + unit) \<times> world" where
  "handleExpiredCampaigns e w =
     expiredLoop e (filter (\<lambda>c. status c = ''active'' \<and> endDate c < now e) (campaigns w)) w"

definition triggerMilestoneAlert :: "env \<Rightarrow> oid \<Rightarrow> int \<Rightarrow> world \<Rightarrow> (error + unit) \<times> world" where
  "triggerMilestoneAlert e campaignId milestone w =
     addOnce e (sendMilestoneAlert campaignId milestone) w"

text \<open>
  The message of the milestone alert:
  \<^verbatim>\<open>content?.notificationStrategy.mileStoneAlertMessage.replace('{milestone}', milestone.toString()) || `Congratulations! ${milestone}% achieved!`\<close>.
  The optional chain stops at an absent Content document only; reading the message of an
  absent strategy throws. An empty text is falsy and gives way to the congratulation.
\<close>

definition congratulation :: "int \<Rightarrow> string" where
  "congratulation milestone = ''Congratulations! '' @ intToString milestone @ ''% achieved!''"

definition milestoneMessage :: "content option \<Rightarrow> int \<Rightarrow> error + string" where
  "milestoneMessage content milestone =
     (case content of
        None \<Rightarrow> Inr (congratulation milestone)
      | Some doc \<Rightarrow>
          (case notificationStrategy doc of
             None \<Rightarrow> Inl (TypeError ''Cannot read properties of undefined'')
           | Some st \<Rightarrow>
               (let text = replace (mileStoneAlertMessage st) ''{milestone}'' (intToString milestone)
                in Inr (if text = [] then congratulation milestone else text))))"

definition handleMilestoneAlert :: "env \<Rightarrow> oid \<Rightarrow> int \<Rightarrow> world \<Rightarrow> (error + unit) \<times> world" where
  "handleMilestoneAlert e campaignId milestone w =
     (let content = contentDoc w in
      case find (\<lambda>c. campaign_id c = campaignId) (campaigns w) of
        None \<Rightarrow> (Inr (), w)
      | Some campaign \<Rightarrow>
          (case milestoneMessage content milestone of
             Inl err \<Rightarrow> (Inl err, w)
           | Inr text \<Rightarrow>
               sendNotifications e
                 \<lparr>userId = createdBy campaign, notificationType = ''MILESTONE_ALERT'',
                  notificationTitle = ''Milestone Reached!'', message = text,
                  dataCampaignId = campaignId, dataProgress = None,
                  dataMilestone = Some milestone\<rparr> w))"

text \<open>
  The processor of the worker: it routes the job by its name, logs an error and throws it
  again; a job of another name is logged and dropped. The worker marks a job completed
  when the processor returns and failed when it throws.
\<close>

definition processJob :: "env \<Rightarrow> job \<Rightarrow> world \<Rightarrow> (error + unit) \<times> world" where
  "processJob e j w =
     (case (case j of
              sendProgressAlert d \<Rightarrow> handleProgressAlert e d w
            | checkLowProgress \<Rightarrow> handleLowProgressWarning e w
            | checkExpiredCampaigns \<Rightarrow> handleExpiredCampaigns e w
            | sendMilestoneAlert campaignId milestone \<Rightarrow> handleMilestoneAlert e campaignId milestone w
            | otherJob n \<Rightarrow> (Inr (), w)) of
        (Inl err, w') \<Rightarrow> (Inl err, consoleErrorLog (''Job '' @ jobName j @ '' failed:'') w')
      | (Inr u, w') \<Rightarrow> (Inr (), w'))"

datatype jobState = completed | failed error

definition workerRun :: "env \<Rightarrow> job \<Rightarrow> world \<Rightarrow> jobState \<times> world" where
  "workerRun e j w =
     (case processJob e j w of
        (Inl err, w') \<Rightarrow> (failed err, consoleErrorLog (''Job failed:'') w')
      | (Inr u, w') \<Rightarrow> (completed, w'))"

text \<open>Campaigns for the examples: one with a goal of 1000 and one with a goal of zero.\<close>

definition campaignWorld :: world where
  "campaignWorld =
     emptyWorld
       \<lparr>campaigns :=
          [\<lparr>campaign_id = ''c1'', title = ''Shelter'', status = ''active'', currentAmount = 250,
            goalAmount = 1000, endDate = 100, createdBy = ''org1''\<rparr>,
           \<lparr>campaign_id = ''c2'', title = ''Well'', status = ''active'', currentAmount = 250,
            goalAmount = 0, endDate = 100, createdBy = ''org2''\<rparr>]\<rparr>"

definition alertData :: progressAlertData where
  "alertData =
     \<lparr>alertMessage = ''Progress: {progress}%'', alertFrequency = ''weekly'',
      alertCampingId = None, alertOrganizationId = None\<rparr>"


section \<open>The cron expression builder\<close>

lemma split_no_separator: "c \<notin> set h \<Longrightarrow> split c h = [h]"
  by (induction h) auto

lemma split_two_fields: "c \<notin> set h \<Longrightarrow> c \<notin> set m \<Longrightarrow> split c (h @ c # m) = [h, m]"
  by (induction h) (auto simp: split_no_separator)

lemma timeFields_colon:
  "CHR '':'' \<notin> set h \<Longrightarrow> CHR '':'' \<notin> set m \<Longrightarrow> timeFields (Some (h @ '':'' @ m)) = [h, m]"
  by (simp add: timeFields_def split_two_fields)

lemma timeFields_default: "t = None \<or> t = Some [] \<Longrightarrow> timeFields t = [''09'', ''00'']"
  by (auto simp: timeFields_def)

lemma getDayNumber_digit: "natToString (getDayNumber d) = [digit (getDayNumber d)]"
  by (cases d) (simp_all add: natToString.simps)

text \<open>
  Claim C2, as the code has it. For every schedule whose frequency is not weekly (biweekly
  or any other value) the cron expression is \<^verbatim>\<open><minute> <hour> 1,15 * *\<close>, where hour and
  minute are the texts before and after the colon of \<^verbatim>\<open>time\<close>, unchanged (\<^verbatim>\<open>09\<close> and
  \<^verbatim>\<open>00\<close> when \<^verbatim>\<open>time\<close> is absent or empty). No frequency value makes the builder fail:
  the progress alert is registered under that pattern whenever the queue accepts it.
\<close>

theorem cron_non_weekly:
  assumes "frequency (progressAlertSchedule st) \<noteq> progressAlertFrequeincyEnum_weekly"
  shows "(time (progressAlertSchedule st) = Some (h @ '':'' @ m) \<and> CHR '':'' \<notin> set h \<and> CHR '':'' \<notin> set m
            \<longrightarrow> cronExpression (progressAlertSchedule st) = m @ '' '' @ h @ '' 1,15 * *'')
       \<and> (time (progressAlertSchedule st) = None \<or> time (progressAlertSchedule st) = Some []
            \<longrightarrow> cronExpression (progressAlertSchedule st) = ''00 09 1,15 * *'')
       \<and> (\<not> addFails e ''sendProgressAlert''
            \<longrightarrow> fst (addProgressAlertJob e st w) = Inr () \<and>
                list_ex (\<lambda>r. jobId r = ''progress-alert-job'' \<and>
                   pattern r = cronExpression (progressAlertSchedule st))
                  (repeatables (snd (addProgressAlertJob e st w))))"
proof (intro conjI impI)
  assume "time (progressAlertSchedule st) = Some (h @ '':'' @ m) \<and> CHR '':'' \<notin> set h \<and> CHR '':'' \<notin> set m"
  then have "timeFields (time (progressAlertSchedule st)) = [h, m]"
    using timeFields_colon by simp
  with assms show "cronExpression (progressAlertSchedule st) = m @ '' '' @ h @ '' 1,15 * *''"
    by (simp add: cronExpression_def hourField_def minuteField_def template_def)
next
  assume "time (progressAlertSchedule st) = None \<or> time (progressAlertSchedule st) = Some []"
  then have "timeFields (time (progressAlertSchedule st)) = [''09'', ''00'']"
    by (rule timeFields_default)
  with assms show "cronExpression (progressAlertSchedule st) = ''00 09 1,15 * *''"
    by (simp add: cronExpression_def hourField_def minuteField_def template_def)
next
  assume "\<not> addFails e ''sendProgressAlert''"
  then show "fst (addProgressAlertJob e st w) = Inr ()"
    by (simp add: addProgressAlertJob_def addRepeatable_def Let_def)
next
  assume "\<not> addFails e ''sendProgressAlert''"
  then show "list_ex (\<lambda>r. jobId r = ''progress-alert-job'' \<and>
                   pattern r = cronExpression (progressAlertSchedule st))
                  (repeatables (snd (addProgressAlertJob e st w)))"
    by (simp add: addProgressAlertJob_def addRepeatable_def Let_def)
qed

text \<open>The theorem at the biweekly schedule of 09:30, on a queue that accepts the job.\<close>

theorem cron_non_weekly_witness:
  "cronExpression \<lparr>frequency = ''biweekly'', day = None, time = Some ''09:30''\<rparr> = ''30 09 1,15 * *'' \<and>
   fst (addProgressAlertJob quietEnv (exampleStrategy ''biweekly'' None (Some ''09:30'')) emptyWorld) = Inr ()"
  using cron_non_weekly [of "exampleStrategy ''biweekly'' None (Some ''09:30'')" "''09''" "''30''" quietEnv emptyWorld]
  by (simp add: exampleStrategy_def progressAlertFrequeincyEnum_weekly_def quietEnv_def)

text \<open>
  Claim C2 as stated fails: the biweekly schedule of 09:30 yields \<^verbatim>\<open>30 09 1,15 * *\<close>, the
  hour keeping its leading zero, and the unsupported frequency \<^verbatim>\<open>monthly\<close> raises nothing:
  the job is registered with the same pattern.
\<close>

theorem cron_non_weekly_counterexample:
  "cronExpression \<lparr>frequency = ''biweekly'', day = None, time = Some ''09:30''\<rparr> = ''30 09 1,15 * *'' \<and>
   cronExpression \<lparr>frequency = ''biweekly'', day = None, time = Some ''09:30''\<rparr> \<noteq> ''30 9 1,15 * *'' \<and>
   ''monthly'' \<noteq> progressAlertFrequeincyEnum_weekly \<and>
   ''monthly'' \<noteq> progressAlertFrequeincyEnum_biweekly \<and>
   addProgressAlertJob quietEnv (exampleStrategy ''monthly'' None (Some ''09:30'')) emptyWorld =
     (Inr (), emptyWorld\<lparr>repeatables :=
        [\<lparr>key = ''sendProgressAlert:progress-alert-job:::30 09 1,15 * *'',
          repeatJob = sendProgressAlert \<lparr>alertMessage = ''Campaign Progress Alert'',
             alertFrequency = ''monthly'', alertCampingId = None, alertOrganizationId = None\<rparr>,
          jobId = ''progress-alert-job'', pattern = ''30 09 1,15 * *''\<rparr>]\<rparr>)"
  by (simp add: cronExpression_def hourField_def minuteField_def timeFields_def template_def
      progressAlertFrequeincyEnum_weekly_def progressAlertFrequeincyEnum_biweekly_def
      addProgressAlertJob_def addRepeatable_def quietEnv_def emptyWorld_def exampleStrategy_def
      repeatKey_def)

text \<open>
  Claim C3, as the code has it. For every weekly schedule with a day the cron expression is
  \<^verbatim>\<open><minute> <hour> * * <weekday>\<close>: the weekday is the number of the day counted from
  sunday = 0 to saturday = 6, and hour and minute are the texts before and after the colon
  of \<^verbatim>\<open>time\<close>, unchanged (\<^verbatim>\<open>09\<close> and \<^verbatim>\<open>00\<close> when \<^verbatim>\<open>time\<close> is absent or empty).
\<close>

theorem cron_weekly:
  assumes "frequency s = progressAlertFrequeincyEnum_weekly" and "day s = Some d"
  shows "(time s = Some (h @ '':'' @ m) \<and> CHR '':'' \<notin> set h \<and> CHR '':'' \<notin> set m
            \<longrightarrow> cronExpression s = m @ '' '' @ h @ '' * * '' @ [digit (getDayNumber d)])
       \<and> (time s = None \<or> time s = Some []
            \<longrightarrow> cronExpression s = ''00 09 * * '' @ [digit (getDayNumber d)])
       \<and> getDayNumber d < 7 \<and> weekFromSunday ! getDayNumber d = d"
proof (intro conjI impI)
  assume "time s = Some (h @ '':'' @ m) \<and> CHR '':'' \<notin> set h \<and> CHR '':'' \<notin> set m"
  then have "timeFields (time s) = [h, m]"
    using timeFields_colon by simp
  with assms show "cronExpression s = m @ '' '' @ h @ '' * * '' @ [digit (getDayNumber d)]"
    by (simp add: cronExpression_def hourField_def minuteField_def template_def getDayNumber_digit)
next
  assume "time s = None \<or> time s = Some []"
  then have "timeFields (time s) = [''09'', ''00'']"
    by (rule timeFields_default)
  with assms show "cronExpression s = ''00 09 * * '' @ [digit (getDayNumber d)]"
    by (simp add: cronExpression_def hourField_def minuteField_def template_def getDayNumber_digit)
next
  show "getDayNumber d < 7" by (cases d) simp_all
next
  show "weekFromSunday ! getDayNumber d = d" by (cases d) (simp_all add: weekFromSunday_def)
qed

text \<open>The theorem at monday 10:00 and at a sunday schedule without a time.\<close>

theorem cron_weekly_witness:
  "cronExpression \<lparr>frequency = ''weekly'', day = Some monday, time = Some ''10:00''\<rparr> = ''00 10 * * 1'' \<and>
   cronExpression \<lparr>frequency = ''weekly'', day = Some sunday, time = None\<rparr> = ''00 09 * * 0''"
  using cron_weekly [of "\<lparr>frequency = ''weekly'', day = Some monday, time = Some ''10:00''\<rparr>" monday "''10''" "''00''"]
    cron_weekly [of "\<lparr>frequency = ''weekly'', day = Some sunday, time = None\<rparr>" sunday "''10''" "''00''"]
  by (simp add: progressAlertFrequeincyEnum_weekly_def digit_def)

text \<open>
  Claim C3 as stated fails: monday 10:00 yields \<^verbatim>\<open>00 10 * * 1\<close>, not \<^verbatim>\<open>0 10 * * 1\<close>, and
  the malformed time \<^verbatim>\<open>1000\<close> is not replaced by 09:00.
\<close>

theorem cron_weekly_counterexample:
  "cronExpression \<lparr>frequency = progressAlertFrequeincyEnum_weekly, day = Some monday, time = Some ''10:00''\<rparr> = ''00 10 * * 1'' \<and>
   cronExpression \<lparr>frequency = progressAlertFrequeincyEnum_weekly, day = Some monday, time = Some ''10:00''\<rparr> \<noteq> ''0 10 * * 1'' \<and>
   cronExpression \<lparr>frequency = progressAlertFrequeincyEnum_weekly, day = Some monday, time = Some ''1000''\<rparr> = ''undefined 1000 * * 1''"
  by (simp add: cronExpression_def hourField_def minuteField_def timeFields_def template_def
      natToString.simps digit_def)

section \<open>Schedule reconciliation\<close>

lemma startsWith_append: "startsWith (p @ ys) p"
  by (induction p) auto

lemma includesStr_prefix: "includesStr (p @ ys) p"
  by (cases "p @ ys") (auto simp: startsWith_append simp flip: append_Cons dest: sym)

lemma includesStr_append_left: "includesStr s p \<Longrightarrow> includesStr (xs @ s) p"
proof (induction xs)
  case Nil
  then show ?case by simp
next
  case (Cons x xs)
  then show ?case by simp
qed

lemma includesStr_middle: "includesStr (xs @ p @ ys) p"
  by (rule includesStr_append_left) (rule includesStr_prefix)

lemma repeatKey_includes: "includesStr (repeatKey n i p) i"
  unfolding repeatKey_def using includesStr_middle [of "n @ '':''" i "'':::'' @ p"] by simp

lemma shouldRemove_repeatKey: "i \<in> set jobIds \<Longrightarrow> shouldRemove (repeatKey n i p)"
  unfolding shouldRemove_def list_ex_iff using repeatKey_includes by blast

lemma shouldRemove_carried: "i \<in> set jobIds \<Longrightarrow> includesStr k i \<Longrightarrow> shouldRemove k"
  unfolding shouldRemove_def list_ex_iff by blast

lemma removeJobs_filter:
  "\<forall>k. \<not> removeRepeatableByKeyFails e k \<Longrightarrow>
   removeJobs e js w =
     (Inr (), w\<lparr>repeatables :=
        filter (\<lambda>r. \<not> (shouldRemove (key r) \<and> key r \<in> key ` set js)) (repeatables w)\<rparr>)"
proof (induction js arbitrary: w)
  case Nil
  then show ?case by simp
next
  case (Cons j js)
  show ?case
  proof (cases "shouldRemove (key j)")
    case True
    have "removeJobs e (j # js) w =
            removeJobs e js (w\<lparr>repeatables := filter (\<lambda>r. key r \<noteq> key j) (repeatables w)\<rparr>)"
      using True Cons.prems by (simp add: removeRepeatableByKey_def)
    also have "\<dots> = (Inr (), w\<lparr>repeatables :=
        filter (\<lambda>r. \<not> (shouldRemove (key r) \<and> key r \<in> key ` set js))
          (filter (\<lambda>r. key r \<noteq> key j) (repeatables w))\<rparr>)"
      using Cons.IH [OF Cons.prems] by simp
    also have "filter (\<lambda>r. \<not> (shouldRemove (key r) \<and> key r \<in> key ` set js))
          (filter (\<lambda>r. key r \<noteq> key j) (repeatables w)) =
        filter (\<lambda>r. \<not> (shouldRemove (key r) \<and> key r \<in> key ` set (j # js))) (repeatables w)"
      using True by (auto intro: filter_cong)
    finally show ?thesis .
  next
    case False
    have "removeJobs e (j # js) w = removeJobs e js w"
      using False by simp
    also have "\<dots> = (Inr (), w\<lparr>repeatables :=
        filter (\<lambda>r. \<not> (shouldRemove (key r) \<and> key r \<in> key ` set js)) (repeatables w)\<rparr>)"
      using Cons.IH [OF Cons.prems] by simp
    also have "filter (\<lambda>r. \<not> (shouldRemove (key r) \<and> key r \<in> key ` set js)) (repeatables w) =
        filter (\<lambda>r. \<not> (shouldRemove (key r) \<and> key r \<in> key ` set (j # js))) (repeatables w)"
      using False by (auto intro: filter_cong)
    finally show ?thesis .
  qed
qed

lemma removeExisting_quiet:
  assumes "\<not> getRepeatableJobsFails e" and "\<forall>k. \<not> removeRepeatableByKeyFails e k"
  shows "removeExistingNotificationJobs e w =
     (Inr (), w\<lparr>repeatables := filter (\<lambda>r. \<not> shouldRemove (key r)) (repeatables w)\<rparr>)"
proof -
  have "filter (\<lambda>r. \<not> (shouldRemove (key r) \<and> key r \<in> key ` set (repeatables w))) (repeatables w)
      = filter (\<lambda>r. \<not> shouldRemove (key r)) (repeatables w)"
    by (auto intro: filter_cong)
  then show ?thesis
    using assms
    by (simp add: removeExistingNotificationJobs_def getRepeatableJobs_def andThen_def
        removeJobs_filter)
qed

lemma removeJobs_console: "consoleError (snd (removeJobs e js w)) = consoleError w"
  by (induction js arbitrary: w) (auto simp: removeRepeatableByKey_def split: prod.splits sum.splits)

lemma removeExisting_never_raises: "fst (removeExistingNotificationJobs e w) = Inr ()"
  by (simp add: removeExistingNotificationJobs_def split: prod.splits sum.splits)

lemma registration_keys_distinct:
  "key (progressAlertRegistration st) \<noteq> key lowProgressRegistration"
  "key (progressAlertRegistration st) \<noteq> key expiredRegistration"
  "key lowProgressRegistration \<noteq> key expiredRegistration"
  by (simp_all add: progressAlertRegistration_def lowProgressRegistration_def
      expiredRegistration_def repeatKey_def)

lemma addProgressAlertJob_quiet:
  "\<not> addFails e ''sendProgressAlert'' \<Longrightarrow>
   addProgressAlertJob e st w =
     (Inr (), w\<lparr>repeatables :=
        filter (\<lambda>r. key r \<noteq> key (progressAlertRegistration st)) (repeatables w) @
        [progressAlertRegistration st]\<rparr>)"
  by (simp add: addProgressAlertJob_def addRepeatable_def progressAlertRegistration_def Let_def)

lemma addLowProgressWarningJob_quiet:
  "\<not> addFails e ''checkLowProgress'' \<Longrightarrow>
   addLowProgressWarningJob e w =
     (Inr (), w\<lparr>repeatables :=
        filter (\<lambda>r. key r \<noteq> key lowProgressRegistration) (repeatables w) @
        [lowProgressRegistration]\<rparr>)"
  by (simp add: addLowProgressWarningJob_def addRepeatable_def lowProgressRegistration_def Let_def)

lemma addCampaignExpiredAlertJob_quiet:
  "\<not> addFails e ''checkExpiredCampaigns'' \<Longrightarrow>
   addCampaignExpiredAlertJob e w =
     (Inr (), w\<lparr>repeatables :=
        filter (\<lambda>r. key r \<noteq> key expiredRegistration) (repeatables w) @
        [expiredRegistration]\<rparr>)"
  by (simp add: addCampaignExpiredAlertJob_def addRepeatable_def expiredRegistration_def Let_def)

lemma setupNotificationJobs_quiet:
  assumes "\<not> registrationFails e st"
  shows "setupNotificationJobs e st w =
     (Inr (), w\<lparr>repeatables :=
        filter (\<lambda>r. key r \<notin> key ` set (enabledRegistrations st)) (repeatables w) @
        enabledRegistrations st\<rparr>)"
proof -
  note keys = registration_keys_distinct registration_keys_distinct [symmetric]
  show ?thesis
  proof (cases "progressAlert st")
    case pa: True
    show ?thesis
    proof (cases "lowProgressWarning st")
      case lp: True
      show ?thesis
      proof (cases "campaignExpiredAlert st")
        case True
        with pa lp assms show ?thesis
          by (simp add: setupNotificationJobs_def registrationFails_def andThen_def whenDo_def
              addProgressAlertJob_quiet addLowProgressWarningJob_quiet
              addCampaignExpiredAlertJob_quiet enabledRegistrations_def keys conj_ac)
      next
        case False
        with pa lp assms show ?thesis
          by (simp add: setupNotificationJobs_def registrationFails_def andThen_def whenDo_def
              addProgressAlertJob_quiet addLowProgressWarningJob_quiet
              enabledRegistrations_def keys conj_ac)
      qed
    next
      case lp: False
      show ?thesis
      proof (cases "campaignExpiredAlert st")
        case True
        with pa lp assms show ?thesis
          by (simp add: setupNotificationJobs_def registrationFails_def andThen_def whenDo_def
              addProgressAlertJob_quiet addCampaignExpiredAlertJob_quiet
              enabledRegistrations_def keys conj_ac)
      next
        case False
        with pa lp assms show ?thesis
          by (simp add: setupNotificationJobs_def registrationFails_def andThen_def whenDo_def
              addProgressAlertJob_quiet enabledRegistrations_def)
      qed
    qed
  next
    case pa: False
    show ?thesis
    proof (cases "lowProgressWarning st")
      case lp: True
      show ?thesis
      proof (cases "campaignExpiredAlert st")
        case True
        with pa lp assms show ?thesis
          by (simp add: setupNotificationJobs_def registrationFails_def andThen_def whenDo_def
              addLowProgressWarningJob_quiet addCampaignExpiredAlertJob_quiet
              enabledRegistrations_def keys conj_ac)
      next
        case False
        with pa lp assms show ?thesis
          by (simp add: setupNotificationJobs_def registrationFails_def andThen_def whenDo_def
              addLowProgressWarningJob_quiet enabledRegistrations_def)
      qed
    next
      case lp: False
      show ?thesis
      proof (cases "campaignExpiredAlert st")
        case True
        with pa lp assms show ?thesis
          by (simp add: setupNotificationJobs_def registrationFails_def andThen_def whenDo_def
              addCampaignExpiredAlertJob_quiet enabledRegistrations_def)
      next
        case False
        with pa lp assms show ?thesis
          by (simp add: setupNotificationJobs_def registrationFails_def andThen_def whenDo_def
              enabledRegistrations_def)
      qed
    qed
  qed
qed

lemma setupNotificationJobs_raises:
  assumes "registrationFails e st"
  shows "fst (setupNotificationJobs e st w) = Inl (ExternalError ''scheduleQueue.add'')"
proof -
  have pa: "fst (whenDo (progressAlert st) (addProgressAlertJob e st) w) = Inr () \<or>
        (progressAlert st \<and> addFails e ''sendProgressAlert'')"
    by (auto simp: whenDo_def addProgressAlertJob_def addRepeatable_def Let_def)
  show ?thesis
    using assms
    by (auto simp: setupNotificationJobs_def registrationFails_def andThen_def whenDo_def
        addProgressAlertJob_def addLowProgressWarningJob_def addCampaignExpiredAlertJob_def
        addRepeatable_def Let_def split: prod.splits sum.splits)
qed

lemma upsertContent_update:
  assumes "contentDoc w = Some c"
  shows "upsertContent e \<lparr>payloadNotificationStrategy = Some st\<rparr> w =
    (case setupNotificationJobs e st
            (snd (removeExistingNotificationJobs e
               (w\<lparr>contentDoc := Some (c\<lparr>notificationStrategy := Some st\<rparr>)\<rparr>))) of
       (Inl err, w') \<Rightarrow> (Inl err, consoleErrorLog ''Error in upsertContent:'' w')
     | (Inr u, w') \<Rightarrow> (Inr (c\<lparr>notificationStrategy := Some st\<rparr>, False), w'))"
proof -
  obtain w1 where r: "removeExistingNotificationJobs e
      (w\<lparr>contentDoc := Some (c\<lparr>notificationStrategy := Some st\<rparr>)\<rparr>) = (Inr (), w1)"
    using removeExisting_never_raises
    by (metis prod.collapse)
  show ?thesis
    using assms r
    by (simp add: upsertContent_def andThen_def Let_def split: prod.splits sum.splits)
qed

lemma enabled_keys_removed: "r \<in> set (enabledRegistrations st) \<Longrightarrow> shouldRemove (key r)"
  by (auto simp: enabledRegistrations_def progressAlertRegistration_def lowProgressRegistration_def
      expiredRegistration_def jobIds_def intro!: shouldRemove_repeatKey split: if_splits)

lemma reconcile_quiet:
  assumes "\<not> getRepeatableJobsFails e" and "\<forall>k. \<not> removeRepeatableByKeyFails e k"
    and "\<forall>n. \<not> addFails e n" and "contentDoc w = Some c"
  shows "upsertContent e \<lparr>payloadNotificationStrategy = Some st\<rparr> w =
     (Inr (c\<lparr>notificationStrategy := Some st\<rparr>, False),
      w\<lparr>contentDoc := Some (c\<lparr>notificationStrategy := Some st\<rparr>),
        repeatables := filter (\<lambda>r. \<not> shouldRemove (key r)) (repeatables w) @
                       enabledRegistrations st\<rparr>)"
proof -
  have nf: "\<not> registrationFails e st"
    using assms(3) by (simp add: registrationFails_def)
  have "filter (\<lambda>r. key r \<notin> key ` set (enabledRegistrations st))
          (filter (\<lambda>r. \<not> shouldRemove (key r)) (repeatables w)) =
        filter (\<lambda>r. \<not> shouldRemove (key r)) (repeatables w)"
    using enabled_keys_removed by (auto intro!: filter_cong)
  then show ?thesis
    using assms(1,2,4)
    by (simp add: upsertContent_update removeExisting_quiet setupNotificationJobs_quiet [OF nf])
qed

lemma carried_not_kept:
  assumes "list_all (\<lambda>r. includesStr (key r) (jobId r)) rs" and "i \<in> set jobIds"
  shows "filter (\<lambda>r. jobId r = i) (filter (\<lambda>r. \<not> shouldRemove (key r)) rs) = []"
  using assms by (auto simp: filter_empty_conv list_all_iff dest: shouldRemove_carried)

text \<open>
  Claim C5. When no call to the queue raises, and every stored registration carries its
  identity inside its key, updating the Content document twice in a row with the same
  notification strategy leaves the registrations of the first update unchanged: the first
  update removes every registration whose key contains one of the three identities and
  appends one registration for each enabled toggle, and after the second one each identity
  has exactly one registration if its toggle is enabled and none otherwise.
\<close>

theorem reconcile_twice:
  assumes "\<not> getRepeatableJobsFails e" and "\<forall>k. \<not> removeRepeatableByKeyFails e k"
    and "\<forall>n. \<not> addFails e n" and "contentDoc w = Some c"
    and "list_all (\<lambda>r. includesStr (key r) (jobId r)) (repeatables w)"
    and "p = \<lparr>payloadNotificationStrategy = Some st\<rparr>"
    and "w1 = snd (upsertContent e p w)" and "w2 = snd (upsertContent e p w1)"
  shows "fst (upsertContent e p w) = Inr (c\<lparr>notificationStrategy := Some st\<rparr>, False) \<and>
     fst (upsertContent e p w1) = Inr (c\<lparr>notificationStrategy := Some st\<rparr>, False) \<and>
     repeatables w1 =
       filter (\<lambda>r. \<not> shouldRemove (key r)) (repeatables w) @ enabledRegistrations st \<and>
     repeatables w2 = repeatables w1 \<and>
     registrationsOf ''progress-alert-job'' w2 =
       (if progressAlert st then [progressAlertRegistration st] else []) \<and>
     registrationsOf ''low-progress-warning-job'' w2 =
       (if lowProgressWarning st then [lowProgressRegistration] else []) \<and>
     registrationsOf ''campaign-expired-alert-job'' w2 =
       (if campaignExpiredAlert st then [expiredRegistration] else [])"
proof -
  let ?c = "c\<lparr>notificationStrategy := Some st\<rparr>"
  let ?F = "filter (\<lambda>r. \<not> shouldRemove (key r)) (repeatables w)"
  have first: "upsertContent e p w =
      (Inr (?c, False), w\<lparr>contentDoc := Some ?c, repeatables := ?F @ enabledRegistrations st\<rparr>)"
    using reconcile_quiet [OF assms(1-4)] assms(6) by simp
  then have w1: "w1 = w\<lparr>contentDoc := Some ?c, repeatables := ?F @ enabledRegistrations st\<rparr>"
    using assms(7) by simp
  have doc1: "contentDoc w1 = Some ?c"
    using w1 by simp
  have gone: "filter (\<lambda>r. \<not> shouldRemove (key r)) (enabledRegistrations st) = []"
    using enabled_keys_removed by (auto simp: filter_empty_conv)
  have second: "upsertContent e p w1 =
      (Inr (?c, False), w1\<lparr>contentDoc := Some ?c, repeatables := ?F @ enabledRegistrations st\<rparr>)"
    using reconcile_quiet [OF assms(1-3) doc1, of st] assms(6) w1 gone by simp
  then have r2: "repeatables w2 = ?F @ enabledRegistrations st"
    using assms(8) by simp
  have none: "\<And>i. i \<in> set jobIds \<Longrightarrow> filter (\<lambda>r. jobId r = i) ?F = []"
    using carried_not_kept [OF assms(5)] by simp
  have pa: "registrationsOf ''progress-alert-job'' w2 =
       (if progressAlert st then [progressAlertRegistration st] else [])"
    using none [of "''progress-alert-job''"] r2
    by (simp add: registrationsOf_def jobIds_def enabledRegistrations_def
        progressAlertRegistration_def lowProgressRegistration_def expiredRegistration_def)
  have lp: "registrationsOf ''low-progress-warning-job'' w2 =
       (if lowProgressWarning st then [lowProgressRegistration] else [])"
    using none [of "''low-progress-warning-job''"] r2
    by (simp add: registrationsOf_def jobIds_def enabledRegistrations_def
        progressAlertRegistration_def lowProgressRegistration_def expiredRegistration_def)
  have ce: "registrationsOf ''campaign-expired-alert-job'' w2 =
       (if campaignExpiredAlert st then [expiredRegistration] else [])"
    using none [of "''campaign-expired-alert-job''"] r2
    by (simp add: registrationsOf_def jobIds_def enabledRegistrations_def
        progressAlertRegistration_def lowProgressRegistration_def expiredRegistration_def)
  show ?thesis
    using first second w1 r2 pa lp ce by simp
qed

text \<open>
  The theorem on a store that holds a stale progress alert registration under another
  pattern, with the three toggles enabled.
\<close>

theorem reconcile_twice_witness:
  "registrationsOf ''progress-alert-job''
     (snd (upsertContent quietEnv
        \<lparr>payloadNotificationStrategy = Some (exampleStrategy ''weekly'' (Some monday) (Some ''10:00''))\<rparr>
        (snd (upsertContent quietEnv
          \<lparr>payloadNotificationStrategy = Some (exampleStrategy ''weekly'' (Some monday) (Some ''10:00''))\<rparr>
          staleWorld)))) =
     [progressAlertRegistration (exampleStrategy ''weekly'' (Some monday) (Some ''10:00''))] \<and>
   registrationsOf ''low-progress-warning-job''
     (snd (upsertContent quietEnv
        \<lparr>payloadNotificationStrategy = Some (exampleStrategy ''weekly'' (Some monday) (Some ''10:00''))\<rparr>
        (snd (upsertContent quietEnv
          \<lparr>payloadNotificationStrategy = Some (exampleStrategy ''weekly'' (Some monday) (Some ''10:00''))\<rparr>
          staleWorld)))) = [lowProgressRegistration] \<and>
   registrationsOf ''campaign-expired-alert-job''
     (snd (upsertContent quietEnv
        \<lparr>payloadNotificationStrategy = Some (exampleStrategy ''weekly'' (Some monday) (Some ''10:00''))\<rparr>
        (snd (upsertContent quietEnv
          \<lparr>payloadNotificationStrategy = Some (exampleStrategy ''weekly'' (Some monday) (Some ''10:00''))\<rparr>
          staleWorld)))) = [expiredRegistration]"
proof -
  have q: "\<not> getRepeatableJobsFails quietEnv" "\<forall>k. \<not> removeRepeatableByKeyFails quietEnv k"
    "\<forall>n. \<not> addFails quietEnv n"
    by (simp_all add: quietEnv_def)
  have d: "contentDoc staleWorld = Some \<lparr>notificationStrategy = None\<rparr>"
    by (simp add: staleWorld_def emptyWorld_def)
  have k: "list_all (\<lambda>r. includesStr (key r) (jobId r)) (repeatables staleWorld)"
    by (simp add: staleWorld_def emptyWorld_def)
  have e: "progressAlert (exampleStrategy ''weekly'' (Some monday) (Some ''10:00''))"
    "lowProgressWarning (exampleStrategy ''weekly'' (Some monday) (Some ''10:00''))"
    "campaignExpiredAlert (exampleStrategy ''weekly'' (Some monday) (Some ''10:00''))"
    by (simp_all add: exampleStrategy_def)
  show ?thesis
    using reconcile_twice [OF q d k refl refl refl,
        of "exampleStrategy ''weekly'' (Some monday) (Some ''10:00'')"] e
    by simp
qed

lemma removeJobs_raises:
  "list_ex (\<lambda>j. shouldRemove (key j) \<and> removeRepeatableByKeyFails e (key j)) js \<Longrightarrow>
   fst (removeJobs e js w) = Inl (ExternalError ''scheduleQueue.removeRepeatableByKey'')"
proof (induction js arbitrary: w)
  case Nil
  then show ?case by simp
next
  case (Cons j js)
  then show ?case
    by (auto simp: removeRepeatableByKey_def)
qed

lemma removeExisting_logs:
  assumes "getRepeatableJobsFails e \<or>
     list_ex (\<lambda>j. shouldRemove (key j) \<and> removeRepeatableByKeyFails e (key j)) (repeatables w)"
  shows "consoleError (snd (removeExistingNotificationJobs e w)) =
     consoleError w @ [''Error removing jobs:'']"
proof (cases "getRepeatableJobsFails e")
  case True
  then show ?thesis
    by (simp add: removeExistingNotificationJobs_def getRepeatableJobs_def andThen_def
        consoleErrorLog_def)
next
  case False
  with assms have "fst (removeJobs e (repeatables w) w) =
      Inl (ExternalError ''scheduleQueue.removeRepeatableByKey'')"
    using removeJobs_raises by blast
  moreover have "consoleError (snd (removeJobs e (repeatables w) w)) = consoleError w"
    by (rule removeJobs_console)
  ultimately show ?thesis
    using False
    by (cases "removeJobs e (repeatables w) w")
      (simp add: removeExistingNotificationJobs_def getRepeatableJobs_def andThen_def
        consoleErrorLog_def)
qed

text \<open>
  Claim C7. Removing the registered jobs never raises, whichever queue call fails, and a
  failure is logged; the update of the Content document then goes on to the registration:
  it succeeds with every enabled registration in the store whenever no registration call
  of an enabled toggle fails, and it returns the queue's error to the caller when one does.
\<close>

theorem reconcile_failure_policy:
  assumes "contentDoc w = Some c"
  shows "fst (removeExistingNotificationJobs e w) = Inr () \<and>
     (getRepeatableJobsFails e \<or>
      list_ex (\<lambda>j. shouldRemove (key j) \<and> removeRepeatableByKeyFails e (key j)) (repeatables w)
        \<longrightarrow> consoleError (snd (removeExistingNotificationJobs e w)) =
              consoleError w @ [''Error removing jobs:'']) \<and>
     (\<not> registrationFails e st
        \<longrightarrow> fst (upsertContent e \<lparr>payloadNotificationStrategy = Some st\<rparr> w) =
              Inr (c\<lparr>notificationStrategy := Some st\<rparr>, False) \<and>
            set (enabledRegistrations st) \<subseteq>
              set (repeatables (snd (upsertContent e \<lparr>payloadNotificationStrategy = Some st\<rparr> w)))) \<and>
     (registrationFails e st
        \<longrightarrow> fst (upsertContent e \<lparr>payloadNotificationStrategy = Some st\<rparr> w) =
              Inl (ExternalError ''scheduleQueue.add''))"
proof (intro conjI impI)
  show "fst (removeExistingNotificationJobs e w) = Inr ()"
    by (rule removeExisting_never_raises)
next
  assume "getRepeatableJobsFails e \<or>
      list_ex (\<lambda>j. shouldRemove (key j) \<and> removeRepeatableByKeyFails e (key j)) (repeatables w)"
  then show "consoleError (snd (removeExistingNotificationJobs e w)) =
      consoleError w @ [''Error removing jobs:'']"
    by (rule removeExisting_logs)
next
  assume nf: "\<not> registrationFails e st"
  show "fst (upsertContent e \<lparr>payloadNotificationStrategy = Some st\<rparr> w) =
      Inr (c\<lparr>notificationStrategy := Some st\<rparr>, False)"
    by (simp add: upsertContent_update [OF assms] setupNotificationJobs_quiet [OF nf])
next
  assume nf: "\<not> registrationFails e st"
  show "set (enabledRegistrations st) \<subseteq>
      set (repeatables (snd (upsertContent e \<lparr>payloadNotificationStrategy = Some st\<rparr> w)))"
    by (simp add: upsertContent_update [OF assms] setupNotificationJobs_quiet [OF nf])
next
  assume f: "registrationFails e st"
  show "fst (upsertContent e \<lparr>payloadNotificationStrategy = Some st\<rparr> w) =
      Inl (ExternalError ''scheduleQueue.add'')"
  proof -
    let ?w = "snd (removeExistingNotificationJobs e
        (w\<lparr>contentDoc := Some (c\<lparr>notificationStrategy := Some st\<rparr>)\<rparr>))"
    have "fst (setupNotificationJobs e st ?w) = Inl (ExternalError ''scheduleQueue.add'')"
      by (rule setupNotificationJobs_raises [OF f])
    then show ?thesis
      by (cases "setupNotificationJobs e st ?w") (simp add: upsertContent_update [OF assms])
  qed
qed

text \<open>
  The theorem where listing the jobs raises and the registration goes through, and where
  the registration of the low progress warning raises.
\<close>

theorem reconcile_failure_policy_witness:
  "fst (upsertContent (quietEnv\<lparr>getRepeatableJobsFails := True\<rparr>)
          \<lparr>payloadNotificationStrategy = Some (exampleStrategy ''weekly'' (Some monday) (Some ''10:00''))\<rparr>
          staleWorld) =
     Inr (\<lparr>notificationStrategy = Some (exampleStrategy ''weekly'' (Some monday) (Some ''10:00''))\<rparr>, False) \<and>
   consoleError (snd (removeExistingNotificationJobs (quietEnv\<lparr>getRepeatableJobsFails := True\<rparr>) staleWorld)) =
     [''Error removing jobs:''] \<and>
   fst (upsertContent (quietEnv\<lparr>addFails := (\<lambda>n. n = ''checkLowProgress'')\<rparr>)
          \<lparr>payloadNotificationStrategy = Some (exampleStrategy ''weekly'' (Some monday) (Some ''10:00''))\<rparr>
          staleWorld) =
     Inl (ExternalError ''scheduleQueue.add'')"
proof -
  have d: "contentDoc staleWorld = Some \<lparr>notificationStrategy = None\<rparr>"
    by (simp add: staleWorld_def emptyWorld_def)
  show ?thesis
    using reconcile_failure_policy [OF d, of "quietEnv\<lparr>getRepeatableJobsFails := True\<rparr>"
        "exampleStrategy ''weekly'' (Some monday) (Some ''10:00'')"]
      reconcile_failure_policy [OF d, of "quietEnv\<lparr>addFails := (\<lambda>n. n = ''checkLowProgress'')\<rparr>"
        "exampleStrategy ''weekly'' (Some monday) (Some ''10:00'')"]
    by (simp add: registrationFails_def quietEnv_def exampleStrategy_def staleWorld_def
        emptyWorld_def)
qed

section \<open>The invitation and donation flow\<close>

lemma inviteLoop_quiet:
  "list_all (\<lambda>i. inviteePhone i \<noteq> [] \<longrightarrow> \<not> sendSMSFails e (inviteePhone i)) is \<Longrightarrow>
   inviteLoop e c u ph d is batch w =
     (Inr (batch @ map (invitationDto c u ph d) is),
      w\<lparr>smsOutbox := smsOutbox w @
          map (\<lambda>i. (inviteePhone i, invitationText c)) (filter (\<lambda>i. inviteePhone i \<noteq> []) is)\<rparr>)"
proof (induction "is" arbitrary: batch w)
  case Nil
  then show ?case by simp
next
  case (Cons i rest)
  then show ?case
    by (simp add: sendSMS_def Let_def)
qed

lemma inviteLoop_raises:
  "list_ex (\<lambda>i. inviteePhone i \<noteq> [] \<and> sendSMSFails e (inviteePhone i)) is \<Longrightarrow>
   fst (inviteLoop e c u ph d is batch w) = Inl (ExternalError ''sendSMS'')"
proof (induction "is" arbitrary: batch w)
  case Nil
  then show ?case by simp
next
  case (Cons i rest)
  then show ?case
    by (auto simp: sendSMS_def Let_def)
qed

lemma inviteLoop_only_sms:
  "snd (inviteLoop e c u ph d is batch w) =
     w\<lparr>smsOutbox := smsOutbox (snd (inviteLoop e c u ph d is batch w))\<rparr>"
proof (induction "is" arbitrary: batch w)
  case Nil
  then show ?case by simp
next
  case (Cons i rest)
  show ?case
  proof (cases "inviteePhone i \<noteq> [] \<and> sendSMSFails e (inviteePhone i)")
    case True
    then show ?thesis by (simp add: sendSMS_def Let_def)
  next
    case False
    let ?b = "batch @ [invitationDto c u ph d i]"
    let ?w = "if inviteePhone i \<noteq> [] then w\<lparr>smsOutbox := smsOutbox w @ [(inviteePhone i, invitationText c)]\<rparr> else w"
    have step: "inviteLoop e c u ph d (i # rest) batch w = inviteLoop e c u ph d rest ?b ?w"
      using False by (auto simp: sendSMS_def Let_def)
    have "snd (inviteLoop e c u ph d rest ?b ?w) =
        ?w\<lparr>smsOutbox := smsOutbox (snd (inviteLoop e c u ph d rest ?b ?w))\<rparr>"
      by (rule Cons.IH)
    then show ?thesis
      unfolding step by (auto split: if_splits)
  qed
qed

lemma donationWrites_quiet:
  assumes "\<forall>s. \<not> sessionFails e s"
  shows "donationWrites e payload u ph c a w =
     (Inr (),
      updateUser u (\<lambda>r. r\<lparr>totalDonated := totalDonated r + a,
                totalInvited := totalInvited r + of_nat (length (myInvitees payload))\<rparr>)
        (updateUser (invitationIrecievedFrom payload) (\<lambda>r. r\<lparr>totalRaised := totalRaised r + a\<rparr>)
           (w\<lparr>transactions := transactions w @ [donationDto e payload u ph c a]\<rparr>)))"
  using assms by (simp add: donationWrites_def andThen_def sessionWrite_def)

lemma invitationTransaction_quiet:
  assumes "\<forall>s. \<not> sessionFails e s" and "donationAmount payload = Some a" and "0 < a"
  shows "invitationTransaction e payload u ph c batch w =
     (Inr (),
      updateUser u (\<lambda>r. r\<lparr>totalDonated := totalDonated r + a,
                totalInvited := totalInvited r + of_nat (length (myInvitees payload))\<rparr>)
        (updateUser (invitationIrecievedFrom payload) (\<lambda>r. r\<lparr>totalRaised := totalRaised r + a\<rparr>)
           (w\<lparr>invitations := invitations w @ batch,
              transactions := transactions w @ [donationDto e payload u ph c a]\<rparr>)))"
  using assms
  by (simp add: invitationTransaction_def andThen_def sessionWrite_def donationWrites_quiet)

lemma invitationTransaction_raises:
  assumes "sessionFails e s" and "donationAmount payload = Some a" and "0 < a"
  shows "\<exists>err w'. invitationTransaction e payload u ph c batch w = (Inl err, w')"
proof (cases s)
  case InsertInvitations
  with assms show ?thesis
    by (simp add: invitationTransaction_def andThen_def sessionWrite_def)
next
  case CreateDonation
  with assms show ?thesis
    by (simp add: invitationTransaction_def donationWrites_def andThen_def sessionWrite_def)
next
  case IncTotalRaised
  with assms show ?thesis
    by (simp add: invitationTransaction_def donationWrites_def andThen_def sessionWrite_def)
next
  case IncTotalDonatedInvited
  with assms show ?thesis
    by (simp add: invitationTransaction_def donationWrites_def andThen_def sessionWrite_def)
next
  case CommitTransaction
  with assms show ?thesis
    by (simp add: invitationTransaction_def donationWrites_def andThen_def sessionWrite_def
        split: prod.splits sum.splits)
qed

lemma updateUser_smsOutbox: "smsOutbox (updateUser i f w) = smsOutbox w"
  by (simp add: updateUser_def split: option.splits)

lemma invitationTransaction_smsOutbox:
  "smsOutbox (snd (invitationTransaction e payload u ph c batch w)) = smsOutbox w"
  by (simp add: invitationTransaction_def donationWrites_def andThen_def sessionWrite_def
      updateUser_smsOutbox split: prod.splits sum.splits option.splits)

lemma invite_reaches_loop:
  assumes "invitationIrecievedFrom payload \<noteq> inviterId"
    and "find (\<lambda>c. campaign_id c = campaignId) (campaigns w) = Some c"
    and "users w inviterId = Some inviter" and "contact inviter = Some phone" and "phone \<noteq> []"
    and "users w (invitationIrecievedFrom payload) = Some referrer"
  shows "invitePeopleToCampaign e payload inviterId campaignId w =
     (case inviteLoop e c inviterId phone (donates payload) (myInvitees payload) [] w of
        (Inl err, w1) \<Rightarrow> (Inl err, w1)
      | (Inr batchInvitationDto, w1) \<Rightarrow>
     (case invitationTransaction e payload inviterId phone c batchInvitationDto w1 of
        (Inl err, w2) \<Rightarrow>
          (Inl (AppError INTERNAL_SERVER_ERROR ''Failed to process invitation and donation''), w1)
      | (Inr u, w2) \<Rightarrow>
          (Inr \<lparr>resultMessage = ''People invited successfully'',
                resultDonationAmount =
                  (if donates payload then donationAmount payload else None)\<rparr>, w2)))"
  using assms by (simp add: invitePeopleToCampaign_def)

lemma invite_commits:
  assumes pre: "invitationIrecievedFrom payload \<noteq> inviterId"
      "find (\<lambda>c. campaign_id c = campaignId) (campaigns w) = Some c"
      "users w inviterId = Some inviter" "contact inviter = Some phone" "phone \<noteq> []"
      "users w (invitationIrecievedFrom payload) = Some referrer"
    and sms: "list_all (\<lambda>i. inviteePhone i \<noteq> [] \<longrightarrow> \<not> sendSMSFails e (inviteePhone i))
               (myInvitees payload)"
    and amount: "donationAmount payload = Some a" "0 < a"
    and quiet: "\<forall>s. \<not> sessionFails e s"
  shows "invitePeopleToCampaign e payload inviterId campaignId w =
     (Inr \<lparr>resultMessage = ''People invited successfully'', resultDonationAmount = Some a\<rparr>,
      w\<lparr>smsOutbox := smsOutbox w @ map (\<lambda>i. (inviteePhone i, invitationText c))
            (filter (\<lambda>i. inviteePhone i \<noteq> []) (myInvitees payload)),
        invitations := invitations w @
            map (invitationDto c inviterId phone True) (myInvitees payload),
        transactions := transactions w @ [donationDto e payload inviterId phone c a],
        users := (users w)
          (invitationIrecievedFrom payload \<mapsto> referrer\<lparr>totalRaised := totalRaised referrer + a\<rparr>,
           inviterId \<mapsto> inviter\<lparr>totalDonated := totalDonated inviter + a,
              totalInvited := totalInvited inviter + of_nat (length (myInvitees payload))\<rparr>)\<rparr>)"
proof -
  have d: "donates payload"
    using amount by (simp add: donates_def)
  show ?thesis
    using pre amount d
    by (simp add: invite_reaches_loop [OF pre] inviteLoop_quiet [OF sms]
        invitationTransaction_quiet [OF quiet amount] updateUser_def)
qed

lemma invite_aborts:
  assumes pre: "invitationIrecievedFrom payload \<noteq> inviterId"
      "find (\<lambda>c. campaign_id c = campaignId) (campaigns w) = Some c"
      "users w inviterId = Some inviter" "contact inviter = Some phone" "phone \<noteq> []"
      "users w (invitationIrecievedFrom payload) = Some referrer"
    and sms: "list_all (\<lambda>i. inviteePhone i \<noteq> [] \<longrightarrow> \<not> sendSMSFails e (inviteePhone i))
               (myInvitees payload)"
    and amount: "donationAmount payload = Some a" "0 < a"
    and fails: "sessionFails e s"
  shows "invitePeopleToCampaign e payload inviterId campaignId w =
     (Inl (AppError INTERNAL_SERVER_ERROR ''Failed to process invitation and donation''),
      w\<lparr>smsOutbox := smsOutbox w @ map (\<lambda>i. (inviteePhone i, invitationText c))
            (filter (\<lambda>i. inviteePhone i \<noteq> []) (myInvitees payload))\<rparr>)"
proof -
  let ?w1 = "w\<lparr>smsOutbox := smsOutbox w @ map (\<lambda>i. (inviteePhone i, invitationText c))
            (filter (\<lambda>i. inviteePhone i \<noteq> []) (myInvitees payload))\<rparr>"
  obtain err w' where "invitationTransaction e payload inviterId phone c
      (map (invitationDto c inviterId phone (donates payload)) (myInvitees payload)) ?w1 = (Inl err, w')"
    using invitationTransaction_raises [OF fails amount] by blast
  then show ?thesis
    by (simp add: invite_reaches_loop [OF pre] inviteLoop_quiet [OF sms])
qed

text \<open>
  Claim C1. An inviter with a phone on file invites three people to an existing campaign
  with a donation of 50, the referring user being another existing user, and every SMS is
  sent. When no write of the session raises, the call returns its result, the referring
  user's \<open>totalRaised\<close> has grown by 50, the inviter's \<open>totalDonated\<close> by 50 and
  \<open>totalInvited\<close> by 3, three invitation records and one donation record with payment
  status completed have been added. When any write of the session or the commit raises,
  the caller gets the one internal error of the service, and the invitation records, the
  donation records and the users are those of before.
\<close>

theorem invitation_donation_atomic:
  assumes "invitationIrecievedFrom payload \<noteq> inviterId"
    and "find (\<lambda>c. campaign_id c = campaignId) (campaigns w) = Some c"
    and "users w inviterId = Some inviter" and "contact inviter = Some phone" and "phone \<noteq> []"
    and "users w (invitationIrecievedFrom payload) = Some referrer"
    and "list_all (\<lambda>i. inviteePhone i \<noteq> [] \<longrightarrow> \<not> sendSMSFails e (inviteePhone i))
           (myInvitees payload)"
    and "donationAmount payload = Some 50" and "length (myInvitees payload) = 3"
    and "r = invitePeopleToCampaign e payload inviterId campaignId w"
  shows "((\<forall>s. \<not> sessionFails e s) \<longrightarrow>
            fst r = Inr \<lparr>resultMessage = ''People invited successfully'',
                         resultDonationAmount = Some 50\<rparr> \<and>
            users (snd r) (invitationIrecievedFrom payload) =
              Some (referrer\<lparr>totalRaised := totalRaised referrer + 50\<rparr>) \<and>
            users (snd r) inviterId =
              Some (inviter\<lparr>totalDonated := totalDonated inviter + 50,
                            totalInvited := totalInvited inviter + 3\<rparr>) \<and>
            invitations (snd r) =
              invitations w @ map (invitationDto c inviterId phone True) (myInvitees payload) \<and>
            length (invitations (snd r)) = length (invitations w) + 3 \<and>
            transactions (snd r) =
              transactions w @ [donationDto e payload inviterId phone c 50] \<and>
            paymentStatus (donationDto e payload inviterId phone c 50) =
              paymentStatusType_COMPLETED) \<and>
         ((\<exists>s. sessionFails e s) \<longrightarrow>
            fst r = Inl (AppError INTERNAL_SERVER_ERROR
                           ''Failed to process invitation and donation'') \<and>
            invitations (snd r) = invitations w \<and>
            transactions (snd r) = transactions w \<and>
            users (snd r) = users w)"
proof (intro conjI impI)
  assume quiet: "\<forall>s. \<not> sessionFails e s"
  have a: "donationAmount payload = Some 50" "(0::rat) < 50"
    using assms(8) by simp_all
  note c = invite_commits [OF assms(1-7) a quiet]
  show "fst r = Inr \<lparr>resultMessage = ''People invited successfully'',
                         resultDonationAmount = Some 50\<rparr>"
    using c assms(10) by simp
  show "users (snd r) (invitationIrecievedFrom payload) =
              Some (referrer\<lparr>totalRaised := totalRaised referrer + 50\<rparr>)"
    using c assms(10) assms(1) by simp
  show "users (snd r) inviterId =
              Some (inviter\<lparr>totalDonated := totalDonated inviter + 50,
                            totalInvited := totalInvited inviter + 3\<rparr>)"
    using c assms(10) assms(9) by simp
  show "invitations (snd r) =
              invitations w @ map (invitationDto c inviterId phone True) (myInvitees payload)"
    using c assms(10) by simp
  show "length (invitations (snd r)) = length (invitations w) + 3"
    using c assms(10) assms(9) by simp
  show "transactions (snd r) =
              transactions w @ [donationDto e payload inviterId phone c 50]"
    using c assms(10) by simp
  show "paymentStatus (donationDto e payload inviterId phone c 50) =
              paymentStatusType_COMPLETED"
    by (simp add: donationDto_def)
next
  assume "\<exists>s. sessionFails e s"
  then obtain s where s: "sessionFails e s" ..
  have a: "donationAmount payload = Some 50" "(0::rat) < 50"
    using assms(8) by simp_all
  note ab = invite_aborts [OF assms(1-7) a s]
  show "fst r = Inl (AppError INTERNAL_SERVER_ERROR
                           ''Failed to process invitation and donation'')"
    using ab assms(10) by simp
  show "invitations (snd r) = invitations w"
    using ab assms(10) by simp
  show "transactions (snd r) = transactions w"
    using ab assms(10) by simp
  show "users (snd r) = users w"
    using ab assms(10) by simp
qed

lemma inviteWorld_facts:
  "invitationIrecievedFrom invitePayload50 \<noteq> ''u1''"
  "find (\<lambda>c. campaign_id c = ''c1'') (campaigns inviteWorld) =
     Some \<lparr>campaign_id = ''c1'', title = ''Shelter'', status = ''active'', currentAmount = 250,
            goalAmount = 1000, endDate = 100, createdBy = ''org1''\<rparr>"
  "users inviteWorld ''u1'' =
     Some \<lparr>contact = Some ''+15550001'', totalRaised = 0, totalDonated = 10, totalInvited = 2\<rparr>"
  "contact \<lparr>contact = Some ''+15550001'', totalRaised = 0, totalDonated = 10, totalInvited = 2\<rparr> =
     Some ''+15550001''"
  "''+15550001'' \<noteq> []"
  "users inviteWorld (invitationIrecievedFrom invitePayload50) =
     Some \<lparr>contact = None, totalRaised = 5, totalDonated = 0, totalInvited = 0\<rparr>"
  "donationAmount invitePayload50 = Some 50"
  "length (myInvitees invitePayload50) = 3"
  by (simp_all add: inviteWorld_def invitePayload50_def emptyWorld_def)

text \<open>
  The theorem on the example state, once with a session that works and once with one that
  raises after the invitations are inserted, when the first counter is updated.
\<close>

theorem invitation_donation_atomic_witness:
  "fst (invitePeopleToCampaign quietEnv invitePayload50 ''u1'' ''c1'' inviteWorld) =
     Inr \<lparr>resultMessage = ''People invited successfully'', resultDonationAmount = Some 50\<rparr> \<and>
   users (snd (invitePeopleToCampaign quietEnv invitePayload50 ''u1'' ''c1'' inviteWorld)) ''u2'' =
     Some \<lparr>contact = None, totalRaised = 55, totalDonated = 0, totalInvited = 0\<rparr> \<and>
   users (snd (invitePeopleToCampaign quietEnv invitePayload50 ''u1'' ''c1'' inviteWorld)) ''u1'' =
     Some \<lparr>contact = Some ''+15550001'', totalRaised = 0, totalDonated = 60, totalInvited = 5\<rparr> \<and>
   length (invitations (snd (invitePeopleToCampaign quietEnv invitePayload50 ''u1'' ''c1'' inviteWorld))) = 3 \<and>
   map paymentStatus
     (transactions (snd (invitePeopleToCampaign quietEnv invitePayload50 ''u1'' ''c1'' inviteWorld))) =
     [''completed''] \<and>
   fst (invitePeopleToCampaign (quietEnv\<lparr>sessionFails := (\<lambda>s. s = IncTotalRaised)\<rparr>)
          invitePayload50 ''u1'' ''c1'' inviteWorld) =
     Inl (AppError 500 ''Failed to process invitation and donation'') \<and>
   invitations (snd (invitePeopleToCampaign (quietEnv\<lparr>sessionFails := (\<lambda>s. s = IncTotalRaised)\<rparr>)
          invitePayload50 ''u1'' ''c1'' inviteWorld)) = [] \<and>
   transactions (snd (invitePeopleToCampaign (quietEnv\<lparr>sessionFails := (\<lambda>s. s = IncTotalRaised)\<rparr>)
          invitePayload50 ''u1'' ''c1'' inviteWorld)) = [] \<and>
   users (snd (invitePeopleToCampaign (quietEnv\<lparr>sessionFails := (\<lambda>s. s = IncTotalRaised)\<rparr>)
          invitePayload50 ''u1'' ''c1'' inviteWorld)) = users inviteWorld"
proof -
  have sms: "list_all (\<lambda>i. inviteePhone i \<noteq> [] \<longrightarrow> \<not> sendSMSFails quietEnv (inviteePhone i))
      (myInvitees invitePayload50)"
    "list_all (\<lambda>i. inviteePhone i \<noteq> [] \<longrightarrow>
        \<not> sendSMSFails (quietEnv\<lparr>sessionFails := (\<lambda>s. s = IncTotalRaised)\<rparr>) (inviteePhone i))
      (myInvitees invitePayload50)"
    by (simp_all add: quietEnv_def invitePayload50_def)
  have q: "\<forall>s. \<not> sessionFails quietEnv s"
    by (simp add: quietEnv_def)
  have f: "\<exists>s. sessionFails (quietEnv\<lparr>sessionFails := (\<lambda>s. s = IncTotalRaised)\<rparr>) s"
    by simp
  have w0: "invitations inviteWorld = []" "transactions inviteWorld = []"
    by (simp_all add: inviteWorld_def emptyWorld_def)
  show ?thesis
    using invitation_donation_atomic [OF inviteWorld_facts(1-6) sms(1) inviteWorld_facts(7,8) refl]
      invitation_donation_atomic [OF inviteWorld_facts(1-6) sms(2) inviteWorld_facts(7,8) refl]
      q f w0
    by (simp add: donationDto_def paymentStatusType_COMPLETED_def INTERNAL_SERVER_ERROR_def
        invitePayload50_def)
qed

text \<open>
  Claim C8. When the referring user of the payload is the inviter, the call returns the
  bad request error at once and the state is the one it was given: no invitation record,
  no donation record, no counter and no SMS has been touched.
\<close>

theorem self_invitation_rejected:
  assumes "invitationIrecievedFrom payload = inviterId"
  shows "invitePeopleToCampaign e payload inviterId campaignId w =
     (Inl (AppError BAD_REQUEST ''You can not invite yourself.''), w)"
  using assms by (simp add: invitePeopleToCampaign_def)

text \<open>The theorem for user u1 naming u1 as the referring user.\<close>

theorem self_invitation_rejected_witness:
  "invitePeopleToCampaign quietEnv (invitePayload50\<lparr>invitationIrecievedFrom := ''u1''\<rparr>)
     ''u1'' ''c1'' inviteWorld =
     (Inl (AppError 400 ''You can not invite yourself.''), inviteWorld)"
  using self_invitation_rejected
    [of "invitePayload50\<lparr>invitationIrecievedFrom := ''u1''\<rparr>" "''u1''" quietEnv "''c1''" inviteWorld]
  by (simp add: BAD_REQUEST_def)

lemma inviteLoop_database:
  "invitations (snd (inviteLoop e c u ph d is batch w)) = invitations w"
  "transactions (snd (inviteLoop e c u ph d is batch w)) = transactions w"
  "users (snd (inviteLoop e c u ph d is batch w)) = users w"
  by (subst inviteLoop_only_sms, simp)+

text \<open>
  Claim C6, as the code has it. The SMS invitations are sent before the session is opened,
  one awaited call for each invitee with a phone number. When a send fails, the call ends
  with the sender's error and no invitation record, donation record or counter has been
  written; when every send succeeds, the messages sent are one for each invitee with a
  phone number, whether the session then commits or aborts.
\<close>

theorem sms_before_transaction:
  assumes "invitationIrecievedFrom payload \<noteq> inviterId"
    and "find (\<lambda>c. campaign_id c = campaignId) (campaigns w) = Some c"
    and "users w inviterId = Some inviter" and "contact inviter = Some phone" and "phone \<noteq> []"
    and "users w (invitationIrecievedFrom payload) = Some referrer"
    and "r = invitePeopleToCampaign e payload inviterId campaignId w"
  shows "(list_ex (\<lambda>i. inviteePhone i \<noteq> [] \<and> sendSMSFails e (inviteePhone i)) (myInvitees payload)
            \<longrightarrow> fst r = Inl (ExternalError ''sendSMS'') \<and>
                invitations (snd r) = invitations w \<and>
                transactions (snd r) = transactions w \<and>
                users (snd r) = users w) \<and>
         (list_all (\<lambda>i. inviteePhone i \<noteq> [] \<longrightarrow> \<not> sendSMSFails e (inviteePhone i)) (myInvitees payload)
            \<longrightarrow> smsOutbox (snd r) =
                  smsOutbox w @ map (\<lambda>i. (inviteePhone i, invitationText c))
                    (filter (\<lambda>i. inviteePhone i \<noteq> []) (myInvitees payload)))"
proof (intro conjI impI)
  let ?loop = "inviteLoop e c inviterId phone (donates payload) (myInvitees payload) [] w"
  assume "list_ex (\<lambda>i. inviteePhone i \<noteq> [] \<and> sendSMSFails e (inviteePhone i)) (myInvitees payload)"
  then have raised: "fst ?loop = Inl (ExternalError ''sendSMS'')"
    by (rule inviteLoop_raises)
  have r: "r = (Inl (ExternalError ''sendSMS''), snd ?loop)"
    using raised assms(7) by (cases ?loop) (simp add: invite_reaches_loop [OF assms(1-6)])
  show "fst r = Inl (ExternalError ''sendSMS'')"
    using r by simp
  show "invitations (snd r) = invitations w"
    using r by (simp add: inviteLoop_database)
  show "transactions (snd r) = transactions w"
    using r by (simp add: inviteLoop_database)
  show "users (snd r) = users w"
    using r by (simp add: inviteLoop_database)
next
  let ?sent = "map (\<lambda>i. (inviteePhone i, invitationText c))
                    (filter (\<lambda>i. inviteePhone i \<noteq> []) (myInvitees payload))"
  let ?batch = "map (invitationDto c inviterId phone (donates payload)) (myInvitees payload)"
  let ?w1 = "w\<lparr>smsOutbox := smsOutbox w @ ?sent\<rparr>"
  assume sms: "list_all (\<lambda>i. inviteePhone i \<noteq> [] \<longrightarrow> \<not> sendSMSFails e (inviteePhone i))
      (myInvitees payload)"
  have "smsOutbox (snd (invitationTransaction e payload inviterId phone c ?batch ?w1)) =
      smsOutbox ?w1"
    by (rule invitationTransaction_smsOutbox)
  then show "smsOutbox (snd r) = smsOutbox w @ ?sent"
    using assms(7)
    by (cases "invitationTransaction e payload inviterId phone c ?batch ?w1")
      (auto simp: invite_reaches_loop [OF assms(1-6)] inviteLoop_quiet [OF sms] split: sum.splits)
qed


text \<open>
  The theorem where the SMS to the second invitee fails, and where every SMS is sent and
  the commit raises.
\<close>

theorem sms_before_transaction_witness:
  "fst (invitePeopleToCampaign (quietEnv\<lparr>sendSMSFails := (\<lambda>p. p = ''+15550003'')\<rparr>)
          invitePayload50 ''u1'' ''c1'' inviteWorld) = Inl (ExternalError ''sendSMS'') \<and>
   invitations (snd (invitePeopleToCampaign (quietEnv\<lparr>sendSMSFails := (\<lambda>p. p = ''+15550003'')\<rparr>)
          invitePayload50 ''u1'' ''c1'' inviteWorld)) = [] \<and>
   map fst (smsOutbox (snd (invitePeopleToCampaign
          (quietEnv\<lparr>sessionFails := (\<lambda>s. s = CommitTransaction)\<rparr>)
          invitePayload50 ''u1'' ''c1'' inviteWorld))) = [''+15550002'', ''+15550003'', ''+15550004'']"
proof -
  have w0: "invitations inviteWorld = []" "smsOutbox inviteWorld = []"
    by (simp_all add: inviteWorld_def emptyWorld_def)
  show ?thesis
    using sms_before_transaction [OF inviteWorld_facts(1-6) refl,
        of "quietEnv\<lparr>sendSMSFails := (\<lambda>p. p = ''+15550003'')\<rparr>"]
      sms_before_transaction [OF inviteWorld_facts(1-6) refl,
        of "quietEnv\<lparr>sessionFails := (\<lambda>s. s = CommitTransaction)\<rparr>"]
      w0
    by (simp add: invitePayload50_def quietEnv_def comp_def)
qed

text \<open>
  Claim C6 as stated fails: when the SMS to the second of three invitees fails, the caller
  gets the sender's error, one SMS has been sent, and none of the invitation and donation
  changes is made, which the same call makes when every SMS is sent.
\<close>

theorem sms_failure_prevents_counterexample:
  "fst (invitePeopleToCampaign (quietEnv\<lparr>sendSMSFails := (\<lambda>p. p = ''+15550003'')\<rparr>)
          invitePayload50 ''u1'' ''c1'' inviteWorld) = Inl (ExternalError ''sendSMS'') \<and>
   invitations (snd (invitePeopleToCampaign (quietEnv\<lparr>sendSMSFails := (\<lambda>p. p = ''+15550003'')\<rparr>)
          invitePayload50 ''u1'' ''c1'' inviteWorld)) = [] \<and>
   transactions (snd (invitePeopleToCampaign (quietEnv\<lparr>sendSMSFails := (\<lambda>p. p = ''+15550003'')\<rparr>)
          invitePayload50 ''u1'' ''c1'' inviteWorld)) = [] \<and>
   users (snd (invitePeopleToCampaign (quietEnv\<lparr>sendSMSFails := (\<lambda>p. p = ''+15550003'')\<rparr>)
          invitePayload50 ''u1'' ''c1'' inviteWorld)) = users inviteWorld \<and>
   map fst (smsOutbox (snd (invitePeopleToCampaign (quietEnv\<lparr>sendSMSFails := (\<lambda>p. p = ''+15550003'')\<rparr>)
          invitePayload50 ''u1'' ''c1'' inviteWorld))) = [''+15550002''] \<and>
   length (invitations (snd (invitePeopleToCampaign quietEnv invitePayload50 ''u1'' ''c1'' inviteWorld))) = 3"
  by (simp add: invitePeopleToCampaign_def inviteWorld_def invitePayload50_def emptyWorld_def
      quietEnv_def sendSMS_def donates_def invitationTransaction_def donationWrites_def
      andThen_def sessionWrite_def updateUser_def Let_def)

section \<open>The notification handlers\<close>

lemma progress_zero_goal:
  "goalAmount c = 0 \<Longrightarrow>
   progress c = (if currentAmount c = 0 then NaN
                 else if 0 < currentAmount c then Infinity else NegInfinity)"
  by (simp add: progress_def divideNumber_def)

lemma progressAlertLoop_quiet:
  "\<forall>n. \<not> sendNotificationsFails e n \<Longrightarrow>
   progressAlertLoop e text cs w =
     (Inr (), w\<lparr>notifications := notifications w @ map (progressAlertNotification text) cs\<rparr>)"
  by (induction cs arbitrary: w) (simp_all add: sendNotifications_def)

lemma lowProgressLoop_quiet:
  "\<forall>n. \<not> sendNotificationsFails e n \<Longrightarrow>
   lowProgressLoop e cs w =
     (Inr (), w\<lparr>notifications := notifications w @
        map lowProgressNotification (filter (\<lambda>x. lessThanNumber (progress x) 25) cs)\<rparr>)"
  by (induction cs arbitrary: w) (simp_all add: sendNotifications_def)

text \<open>
  Claim C4, as the code has it. For a campaign whose goal is zero the handlers form the
  quotient with no guard: the progress is \<open>NaN\<close> when the current amount is zero,
  \<open>Infinity\<close> when it is positive and \<open>-Infinity\<close> when it is negative. The progress
  alert handler notifies the owner all the same, with that text in the place of
  \<^verbatim>\<open>{progress}\<close>, and sends one alert for every campaign of its query. The low progress
  handler passes over such a campaign without a warning when the current amount is not
  negative, the comparison with 25 being false.
\<close>

theorem zero_goal_unguarded:
  assumes "goalAmount c = 0"
  shows "progress c = (if currentAmount c = 0 then NaN
                       else if 0 < currentAmount c then Infinity else NegInfinity) \<and>
     message (progressAlertNotification text c) =
       replace text ''{progress}''
         (if currentAmount c = 0 then ''NaN''
          else if 0 < currentAmount c then ''Infinity'' else ''-Infinity'') \<and>
     (\<not> sendNotificationsFails e (progressAlertNotification text c) \<longrightarrow>
        progressAlertLoop e text (c # cs) w =
          progressAlertLoop e text cs
            (w\<lparr>notifications := notifications w @ [progressAlertNotification text c]\<rparr>)) \<and>
     (0 \<le> currentAmount c \<longrightarrow> lowProgressLoop e (c # cs) w = lowProgressLoop e cs w) \<and>
     ((\<forall>n. \<not> sendNotificationsFails e n) \<longrightarrow>
        notifications (snd (handleProgressAlert e d w)) =
          notifications w @ map (progressAlertNotification (alertMessage d))
            (filter (progressAlertQuery e d) (campaigns w))) \<and>
     ((\<forall>n. \<not> sendNotificationsFails e n) \<and> 0 \<le> currentAmount c \<longrightarrow>
        notifications (snd (handleLowProgressWarning e w)) =
          notifications w @ map lowProgressNotification
            (filter (\<lambda>x. x \<noteq> c \<and> lessThanNumber (progress x) 25)
               (filter (lowProgressQuery e) (campaigns w))))"
proof (intro conjI impI)
  show p: "progress c = (if currentAmount c = 0 then NaN
                       else if 0 < currentAmount c then Infinity else NegInfinity)"
    using assms by (rule progress_zero_goal)
  show "message (progressAlertNotification text c) =
       replace text ''{progress}''
         (if currentAmount c = 0 then ''NaN''
          else if 0 < currentAmount c then ''Infinity'' else ''-Infinity'')"
    by (simp add: progressAlertNotification_def p)
  show "progressAlertLoop e text (c # cs) w =
          progressAlertLoop e text cs
            (w\<lparr>notifications := notifications w @ [progressAlertNotification text c]\<rparr>)"
    if "\<not> sendNotificationsFails e (progressAlertNotification text c)"
    using that by (simp add: sendNotifications_def)
  show "lowProgressLoop e (c # cs) w = lowProgressLoop e cs w" if "0 \<le> currentAmount c"
    using that by (simp add: p)
  show "notifications (snd (handleProgressAlert e d w)) =
          notifications w @ map (progressAlertNotification (alertMessage d))
            (filter (progressAlertQuery e d) (campaigns w))"
    if "\<forall>n. \<not> sendNotificationsFails e n"
    using that by (simp add: handleProgressAlert_def progressAlertLoop_quiet)
  show "notifications (snd (handleLowProgressWarning e w)) =
          notifications w @ map lowProgressNotification
            (filter (\<lambda>x. x \<noteq> c \<and> lessThanNumber (progress x) 25)
               (filter (lowProgressQuery e) (campaigns w)))"
    if h: "(\<forall>n. \<not> sendNotificationsFails e n) \<and> 0 \<le> currentAmount c"
  proof -
    have "\<not> lessThanNumber (progress c) 25"
      using h by (simp add: p)
    then have "(\<lambda>x. lessThanNumber (progress x) 25) = (\<lambda>x. x \<noteq> c \<and> lessThanNumber (progress x) 25)"
      by auto
    then show ?thesis
      using h by (simp add: handleLowProgressWarning_def lowProgressLoop_quiet)
  qed
qed

text \<open>The theorem on the campaign with 250 raised against a goal of zero.\<close>

theorem zero_goal_unguarded_witness:
  "map message (notifications (snd (handleProgressAlert quietEnv alertData
      (campaignWorld\<lparr>campaigns := tl (campaigns campaignWorld)\<rparr>)))) = [''Progress: Infinity%''] \<and>
   notifications (snd (handleLowProgressWarning quietEnv
      (campaignWorld\<lparr>campaigns := tl (campaigns campaignWorld)\<rparr>))) = []"
proof -
  let ?c = "\<lparr>campaign_id = ''c2'', title = ''Well'', status = ''active'', currentAmount = 250,
            goalAmount = 0, endDate = 100, createdBy = ''org2''\<rparr>"
  have g: "goalAmount ?c = 0" by simp
  have q: "\<forall>n. \<not> sendNotificationsFails quietEnv n" by (simp add: quietEnv_def)
  show ?thesis
    using zero_goal_unguarded [OF g, of "alertMessage alertData" quietEnv "[]"
        "campaignWorld\<lparr>campaigns := tl (campaigns campaignWorld)\<rparr>" alertData] q
    by (simp add: campaignWorld_def emptyWorld_def alertData_def progressAlertQuery_def
        lowProgressQuery_def quietEnv_def)
qed

text \<open>
  Claim C4 as stated fails: the progress alert handler does not skip the campaign with a
  goal of zero, it sends its owner the message with \<^verbatim>\<open>Infinity\<close> in it.
\<close>

theorem zero_goal_counterexample:
  "goalAmount (campaigns campaignWorld ! 1) = 0 \<and>
   map message (notifications (snd (handleProgressAlert quietEnv alertData campaignWorld))) =
     [''Progress: 25.0%'', ''Progress: Infinity%''] \<and>
   map userId (notifications (snd (handleProgressAlert quietEnv alertData campaignWorld))) =
     [''org1'', ''org2'']"
  by code_simp

text \<open>
  Claim C10. When the campaign id of a milestone job matches no campaign, the handler
  returns without raising, the state is unchanged, so that no notification is sent, and the
  worker marks the job completed.
\<close>

theorem milestone_unknown_campaign:
  assumes "find (\<lambda>c. campaign_id c = campaignId) (campaigns w) = None"
  shows "handleMilestoneAlert e campaignId milestone w = (Inr (), w) \<and>
     workerRun e (sendMilestoneAlert campaignId milestone) w = (completed, w)"
  using assms by (simp add: handleMilestoneAlert_def workerRun_def processJob_def)

text \<open>The theorem for a job that names the unknown campaign c9.\<close>

theorem milestone_unknown_campaign_witness:
  "workerRun quietEnv (sendMilestoneAlert ''c9'' 50) campaignWorld = (completed, campaignWorld)"
proof -
  have "find (\<lambda>c. campaign_id c = ''c9'') (campaigns campaignWorld) = None"
    by (simp add: campaignWorld_def emptyWorld_def)
  then show ?thesis
    using milestone_unknown_campaign [of "''c9''" campaignWorld quietEnv 50] by simp
qed

text \<open>
  The message of the milestone alert where it is computed: the template with the first
  \<^verbatim>\<open>{milestone}\<close> replaced when a template is there, the congratulation when the template is
  empty or there is no Content document.
\<close>

lemma replace_nonempty: "s \<noteq> [] \<Longrightarrow> r \<noteq> [] \<Longrightarrow> replace s p r \<noteq> []"
  by (cases s) auto

lemma milestoneMessage_configured:
  "milestoneMessage (Some \<lparr>notificationStrategy = Some st\<rparr>) milestone =
     Inr (if mileStoneAlertMessage st = [] then congratulation milestone
          else replace (mileStoneAlertMessage st) ''{milestone}'' (intToString milestone))"
proof -
  have "intToString milestone \<noteq> []"
    by (simp add: intToString_def natToString.simps [of "nat milestone"]
        natToString.simps [of "nat (- milestone)"])
  then show ?thesis
    using replace_nonempty [of "mileStoneAlertMessage st" "intToString milestone" "''{milestone}''"]
    by (auto simp: milestoneMessage_def Let_def)
qed

lemma milestoneMessage_no_document: "milestoneMessage None milestone = Inr (congratulation milestone)"
  by (simp add: milestoneMessage_def)

text \<open>
  Claim C9 on a Content document without a notification strategy, as \<^verbatim>\<open>upsertContent\<close>
  creates it from a payload that has none: the milestone job of an existing campaign fails
  with a type error and no notification is sent, where the claim has the congratulation
  sent.
\<close>

theorem milestone_missing_strategy_raises:
  "contentDoc (snd (upsertContent quietEnv \<lparr>payloadNotificationStrategy = None\<rparr> campaignWorld)) =
     Some \<lparr>notificationStrategy = None\<rparr> \<and>
   fst (workerRun quietEnv (sendMilestoneAlert ''c1'' 50)
          (snd (upsertContent quietEnv \<lparr>payloadNotificationStrategy = None\<rparr> campaignWorld))) =
     failed (TypeError ''Cannot read properties of undefined'') \<and>
   notifications (snd (workerRun quietEnv (sendMilestoneAlert ''c1'' 50)
          (snd (upsertContent quietEnv \<lparr>payloadNotificationStrategy = None\<rparr> campaignWorld)))) = []"
  by (simp add: upsertContent_def andThen_def campaignWorld_def emptyWorld_def workerRun_def
      processJob_def handleMilestoneAlert_def milestoneMessage_def consoleErrorLog_def Let_def)

end
